theory Spec2Isabelle
  imports Main "HOL-Library.Sublist"
begin

section \<open>Go primitives used by the ticket service\<close>

text \<open>
  Strings are Go strings: byte sequences, and \<open>len\<close> counts bytes. Go's \<open>int\<close> is
  modelled as \<open>int\<close>: every length here is bounded by the size of one request held
  in memory, far from the 64-bit range. A run-time panic is a value of its own.
\<close>

datatype panic = SliceBoundsOutOfRange | IndexOutOfRange

definition len :: "string \<Rightarrow> int" where
  "len s = int (length s)"

text \<open>Go's \<open>/\<close> on \<open>int\<close> truncates toward zero.\<close>

definition quo :: "int \<Rightarrow> int \<Rightarrow> int" where
  "quo a b = sgn a * sgn b * (\<bar>a\<bar> div \<bar>b\<bar>)"

text \<open>\<open>s[:n]\<close> panics unless \<open>0 \<le> n \<le> len(s)\<close>.\<close>

definition slice_to :: "string \<Rightarrow> int \<Rightarrow> panic + string" where
  "slice_to s n =
     (if 0 \<le> n \<and> n \<le> len s then Inr (take (nat n) s) else Inl SliceBoundsOutOfRange)"

text \<open>\<open>s[i:j]\<close> panics unless \<open>0 \<le> i \<le> j \<le> len(s)\<close>.\<close>

definition slice :: "string \<Rightarrow> int \<Rightarrow> int \<Rightarrow> panic + string" where
  "slice s i j =
     (if 0 \<le> i \<and> i \<le> j \<and> j \<le> len s then Inr (take (nat (j - i)) (drop (nat i) s))
      else Inl SliceBoundsOutOfRange)"

section \<open>Budget allocation (CreateTicket, lines 109 to 119)\<close>

definition maxJiraDescLength :: int where
  "maxJiraDescLength = 32000"

record limits =
  networkCallsLimit :: int
  headersLimit :: int
  responseLimit :: int
  payloadLimit :: int

text \<open>
  \<open>allocate ceiling essentialLength\<close>: the source computes
  \<open>remainingChars := maxJiraDescLength - essentialLength\<close> and splits it; the ceiling is
  the constant \<open>maxJiraDescLength\<close> at the one call site.
\<close>

definition remainingChars :: "int \<Rightarrow> int \<Rightarrow> int" where
  "remainingChars ceiling essentialLength = ceiling - essentialLength"

definition allocate :: "int \<Rightarrow> int \<Rightarrow> limits" where
  "allocate ceiling essentialLength =
     (let remaining = remainingChars ceiling essentialLength;
          nc = quo remaining 2;
          h = quo remaining 5;
          r = quo remaining 5;
          p = remaining - nc - h - r
      in \<lparr>networkCallsLimit = nc, headersLimit = h, responseLimit = r, payloadLimit = p\<rparr>)"

section \<open>Assignee selection (getRandomTeamMember, lines 565 to 580)\<close>

text \<open>
  \<open>Intn\<close> stands for \<open>rand.Intn\<close> of math/rand, which returns a number in \<open>[0, n)\<close>
  for \<open>n > 0\<close>. An index outside the roster would panic, as in Go.
\<close>

definition getRandomTeamMember :: "(nat \<Rightarrow> nat) \<Rightarrow> string list \<Rightarrow> panic + string" where
  "getRandomTeamMember Intn supportTeam =
     (if length supportTeam = 0 then Inr ''''
      else let randIndex = Intn (length supportTeam)
           in if randIndex < length supportTeam then Inr (supportTeam ! randIndex)
              else Inl IndexOutOfRange)"

section \<open>Requests, responses and the Go library\<close>

text \<open>
  A value of Go's \<open>interface{}\<close> as the JSON binding produces it. \<open>VNil\<close> is the nil
  interface (JSON null, or the value of a missing map key).
\<close>

datatype any = VNil | VString string | VBool bool | VNumber int
  | VArray "any list" | VObject "(string \<times> any) list"

text \<open>
  Go maps are association lists read with \<open>map_of\<close>; the order of a list is the
  order in which \<open>range\<close> happens to visit the map.
\<close>

record TicketRequest =
  URL :: string
  Payload :: "(string \<times> any) list"
  Response :: "(string \<times> any) list"
  RequestHeaders :: "(string \<times> string) list"
  ImageS3URL :: string

record TicketResponse =
  TicketID :: string
  Status :: string
  AssignedTo :: string
  JiraLink :: string

text \<open>\<open>m[k]\<close>: the zero value, a nil interface, when the key is absent.\<close>

definition index :: "(string \<times> any) list \<Rightarrow> string \<Rightarrow> any" where
  "index m k = (case map_of m k of None \<Rightarrow> VNil | Some v \<Rightarrow> v)"

text \<open>The type assertion \<open>v.(string)\<close> with its \<open>ok\<close> result.\<close>

definition asString :: "any \<Rightarrow> string option" where
  "asString v = (case v of VString s \<Rightarrow> Some s | _ \<Rightarrow> None)"

text \<open>
  The functions of the Go standard library that CreateTicket calls and whose results the
  repository does not determine: parameters of the model. \<open>Marshal\<close> and
  \<open>MarshalIndent\<close> return \<open>None\<close> for a non-nil error.
\<close>

record golib =
  Sprint_s :: "any \<Rightarrow> string"
  Sprint_v :: "any \<Rightarrow> string"
  Marshal :: "any \<Rightarrow> string option"
  MarshalIndent :: "any \<Rightarrow> string option"
  Now :: string

text \<open>\<open>fmt.Sprintf("%s", v)\<close>: a string is printed as it is.\<close>

definition fmt_s :: "golib \<Rightarrow> any \<Rightarrow> string" where
  "fmt_s lib v = (case v of VString s \<Rightarrow> s | _ \<Rightarrow> Sprint_s lib v)"

text \<open>A \<open>map[string]string\<close> as the JSON object the encoder sees.\<close>

definition headersValue :: "(string \<times> string) list \<Rightarrow> any" where
  "headersValue hs = VObject (map (\<lambda>(k, v). (k, VString v)) hs)"

section \<open>The fixed part of the description (CreateTicket, lines 59 to 107)\<close>

definition issueSummary :: "golib \<Rightarrow> TicketRequest \<Rightarrow> string" where
  "issueSummary lib req =
     ''h2. Issue Summary\<newline>'' @ fmt_s lib (index (Payload req) ''issue'') @ ''\<newline>\<newline>''"

definition descriptionSection :: "TicketRequest \<Rightarrow> string" where
  "descriptionSection req =
     (case asString (index (Payload req) ''description'') of
        Some desc \<Rightarrow>
          if desc \<noteq> '''' then ''h3. Description\<newline>'' @ desc @ ''\<newline>\<newline>'' else ''''
      | None \<Rightarrow> '''')"

definition metadataLine :: "string \<Rightarrow> TicketRequest \<Rightarrow> string \<Rightarrow> string" where
  "metadataLine label req key =
     (case asString (index (Payload req) key) of
        Some v \<Rightarrow> if v \<noteq> '''' then label @ v @ ''\<newline>'' else ''''
      | None \<Rightarrow> '''')"

definition pageURLLine :: "TicketRequest \<Rightarrow> string" where
  "pageURLLine req =
     (case asString (index (Payload req) ''url'') of
        Some pageURL \<Rightarrow>
          if pageURL \<noteq> '''' then ''* *Page URL:* '' @ pageURL @ ''\<newline>''
          else if URL req \<noteq> '''' then ''* *Page URL:* '' @ URL req @ ''\<newline>''
          else ''''
      | None \<Rightarrow>
          if URL req \<noteq> '''' then ''* *Page URL:* '' @ URL req @ ''\<newline>'' else '''')"

definition metadataSection :: "TicketRequest \<Rightarrow> string" where
  "metadataSection req =
     metadataLine ''* *User Email:* '' req ''userEmail''
     @ metadataLine ''* *Lead ID:* '' req ''leadId''
     @ metadataLine ''* *Product:* '' req ''product''
     @ pageURLLine req"

definition userInformation :: "TicketRequest \<Rightarrow> string" where
  "userInformation req =
     (if metadataSection req \<noteq> ''''
      then ''h3. User Information\<newline>'' @ metadataSection req @ ''\<newline>\<newline>''
      else '''')"

definition validImage :: "string \<Rightarrow> bool" where
  "validImage u \<longleftrightarrow> u \<noteq> '''' \<and> u \<noteq> ''None'' \<and> u \<noteq> ''null''"

definition screenshot :: "TicketRequest \<Rightarrow> string" where
  "screenshot req =
     (if validImage (ImageS3URL req) then
        if prefix ''http'' (ImageS3URL req) then
          ''h3. Screenshot\<newline>!'' @ ImageS3URL req @ ''|width=800!\<newline>\<newline>''
          @ (''{panel:title=Note|borderStyle=dashed|borderColor=#ccc|titleBGColor=#f0f0f0|bgColor=#fafafa}\<newline>''
             @ ''This screenshot URL will expire in 7 days.\<newline>{panel}\<newline>\<newline>'')
        else ''h3. Screenshot\<newline>'' @ ImageS3URL req @ ''\<newline>\<newline>''
      else '''')"

text \<open>The description at line 102, where \<open>essentialLength\<close> is first read.\<close>

definition essentialDescription :: "golib \<Rightarrow> TicketRequest \<Rightarrow> string" where
  "essentialDescription lib req =
     issueSummary lib req @ descriptionSection req @ userInformation req @ screenshot req"

definition timestamp :: "golib \<Rightarrow> string" where
  "timestamp lib = ''Ticket created on: '' @ Now lib @ ''\<newline>''"

definition essentialLength :: "golib \<Rightarrow> TicketRequest \<Rightarrow> int" where
  "essentialLength lib req = len (essentialDescription lib req) + len (timestamp lib)"

section \<open>The variable sections (CreateTicket, lines 54 to 57 and 121 to 315)\<close>

text \<open>
  \<open>wasTruncated\<close> and the \<open>truncatedContent\<close> builder, threaded through the
  sections in the order of the source.
\<close>

record trunc =
  wasTruncated :: bool
  truncatedContent :: string

definition trunc0 :: trunc where
  "trunc0 = \<lparr>wasTruncated = False,
              truncatedContent = ''Additional details that couldn't fit in the description:\<newline>\<newline>''\<rparr>"

text \<open>
  The four statements every truncating branch runs: set the flag, write the heading,
  the full content and an empty line to the builder.
\<close>

definition overflow :: "string \<Rightarrow> string \<Rightarrow> trunc \<Rightarrow> trunc" where
  "overflow heading fullContent t =
     \<lparr>wasTruncated = True,
      truncatedContent = truncatedContent t @ heading @ fullContent @ ''\<newline>\<newline>''\<rparr>"

definition sectionEnd :: string where
  "sectionEnd = ''{panel}\<newline>\<newline>''"

definition ncStart :: string where
  "ncStart = ''{panel:title=Failed Network Calls|collapsed=true|borderStyle=solid|borderColor=#ddd|titleBGColor=#f7f7f7|bgColor=#fff}\<newline>''"

definition headersStart :: string where
  "headersStart = ''{panel:title=Request Headers|collapsed=true|borderStyle=solid|borderColor=#ddd|titleBGColor=#f7f7f7|bgColor=#fff}\<newline>''"

definition responseStart :: string where
  "responseStart = ''{panel:title=Response|collapsed=true|borderStyle=solid|borderColor=#ddd|titleBGColor=#f7f7f7|bgColor=#fff}\<newline>''"

definition payloadStart :: string where
  "payloadStart = ''{panel:title=Full Payload Data|collapsed=true|borderStyle=solid|borderColor=#ddd|titleBGColor=#f7f7f7|bgColor=#fff}\<newline>''"

text \<open>
  Lines 133 to 145 for a string value and lines 150 to 162 for the marshalled bytes of
  any other value are the same statements; \<open>nc\<close> is the text either way. The result is
  \<open>content\<close> and the builder.
\<close>

definition ncBody :: "string \<Rightarrow> int \<Rightarrow> trunc \<Rightarrow> panic + (string \<times> trunc)" where
  "ncBody nc limit t =
     (let fullContent = ''{code:json}\<newline>'' @ nc @ ''\<newline>{code}\<newline>''
      in if len nc > limit - len ncStart - len sectionEnd - 20 then
           (case slice_to nc (limit - len ncStart - len sectionEnd - 50) of
              Inl p \<Rightarrow> Inl p
            | Inr head \<Rightarrow>
                Inr (''Network calls data truncated to fit Jira limit:\<newline>''
                       @ (''{code:json}\<newline>'' @ head @ ''\<newline>...[truncated]...\<newline>{code}\<newline>''),
                     overflow ''h3. Complete Network Calls\<newline>'' fullContent t))
         else Inr (fullContent, t))"

definition networkCallsSection ::
    "golib \<Rightarrow> TicketRequest \<Rightarrow> int \<Rightarrow> trunc \<Rightarrow> panic + (string \<times> trunc)" where
  "networkCallsSection lib req limit t =
     (case map_of (Payload req) ''failedNetworkCalls'' of
        None \<Rightarrow> Inr ('''', t)
      | Some networkCalls \<Rightarrow>
          if networkCalls = VNil then Inr ('''', t)
          else
            (case (case networkCalls of
                     VString nc \<Rightarrow> ncBody nc limit t
                   | _ \<Rightarrow>
                       (case Marshal lib networkCalls of
                          Some ncJSON \<Rightarrow> ncBody ncJSON limit t
                        | None \<Rightarrow> Inr (''Failed to format network calls data as JSON.\<newline>'', t))) of
               Inl p \<Rightarrow> Inl p
             | Inr (content, t') \<Rightarrow> Inr (ncStart @ content @ sectionEnd, t')))"

text \<open>
  The truncating statements the headers (lines 186 to 197), the response (lines 240 to
  251 and 254 to 266) and the payload (lines 285 to 296 and 299 to 311) share:
  \<open>content\<close> and \<open>fullContent\<close> start as the code fence, the text is compared with
  the limit less the wrappers and \<open>margin\<close> (20 after MarshalIndent, 30 in the
  \<open>%v\<close> fallback) and cut at the limit less the wrappers and 30.
\<close>

definition truncateBlock ::
    "string \<Rightarrow> string \<Rightarrow> int \<Rightarrow> string \<Rightarrow> int \<Rightarrow> trunc \<Rightarrow> panic + (string \<times> trunc)" where
  "truncateBlock heading sectionStart margin text limit t =
     (let fullContent = ''{code:json}\<newline>'' @ text @ ''\<newline>{code}\<newline>''
      in if len text > limit - len sectionStart - len sectionEnd - margin then
           (case slice_to text (limit - len sectionStart - len sectionEnd - 30) of
              Inl p \<Rightarrow> Inl p
            | Inr head \<Rightarrow>
                Inr (''{code:json}\<newline>'' @ head @ ''\<newline>...[truncated]...\<newline>'',
                     overflow heading fullContent t))
         else Inr (''{code:json}\<newline>'' @ text, t))"

text \<open>
  The fallback loop over the headers (lines 202 to 219), with its \<open>break\<close>. \<open>lim\<close> is
  \<open>headersLimit-len(sectionStart)-len(sectionEnd)-30\<close>.
\<close>

fun headersLoop ::
    "int \<Rightarrow> (string \<times> string) list \<Rightarrow> string \<Rightarrow> string \<Rightarrow> trunc \<Rightarrow> string \<times> trunc" where
  "headersLoop lim [] headersStr fullHeadersStr t = (headersStr, t)"
| "headersLoop lim ((k, v) # rest) headersStr fullHeadersStr t =
     (let line = k @ '': '' @ v @ ''\<newline>'';
          fullHeadersStr = fullHeadersStr @ line
      in if len headersStr + len line > lim then
           (let headersStr = (if headersStr = '''' then line else headersStr)
            in (headersStr @ ''...[truncated]...\<newline>'',
                \<lparr>wasTruncated = True,
                 truncatedContent = truncatedContent t @ ''h3. Complete Request Headers\<newline>''
                   @ (''{code}\<newline>'' @ fullHeadersStr @ ''{code}\<newline>\<newline>'')\<rparr>))
         else headersLoop lim rest (headersStr @ line) fullHeadersStr t)"

definition headerSection ::
    "golib \<Rightarrow> TicketRequest \<Rightarrow> int \<Rightarrow> trunc \<Rightarrow> panic + (string \<times> trunc)" where
  "headerSection lib req limit t =
     (if length (RequestHeaders req) > 0 then
        (case (case MarshalIndent lib (headersValue (RequestHeaders req)) of
                 Some headersJSON \<Rightarrow>
                   truncateBlock ''h3. Complete Request Headers\<newline>'' headersStart 20
                     headersJSON limit t
               | None \<Rightarrow>
                   (case headersLoop (limit - len headersStart - len sectionEnd - 30)
                           (RequestHeaders req) '''' '''' t of
                      (headersStr, t') \<Rightarrow> Inr (''{code:json}\<newline>'' @ headersStr, t'))) of
           Inl p \<Rightarrow> Inl p
         | Inr (content, t') \<Rightarrow>
             Inr (headersStart @ (content @ ''\<newline>{code}\<newline>'') @ sectionEnd, t'))
      else Inr (headersStart @ ''No request headers available.\<newline>'' @ sectionEnd, t))"

text \<open>
  \<open>json.MarshalIndent\<close> of a map, and on its error \<open>fmt.Sprintf("%v", m)\<close>: lines 238
  to 268 for the response, lines 283 to 313 for the payload.
\<close>

definition mapBlock ::
    "golib \<Rightarrow> string \<Rightarrow> string \<Rightarrow> (string \<times> any) list \<Rightarrow> int \<Rightarrow> trunc
      \<Rightarrow> panic + (string \<times> trunc)" where
  "mapBlock lib heading sectionStart m limit t =
     (case (case MarshalIndent lib (VObject m) of
              Some mJSON \<Rightarrow> truncateBlock heading sectionStart 20 mJSON limit t
            | None \<Rightarrow> truncateBlock heading sectionStart 30 (Sprint_v lib (VObject m)) limit t) of
        Inl p \<Rightarrow> Inl p
      | Inr (content, t') \<Rightarrow>
          Inr (sectionStart @ (content @ ''\<newline>{code}\<newline>'') @ sectionEnd, t'))"

definition responseSection ::
    "golib \<Rightarrow> TicketRequest \<Rightarrow> int \<Rightarrow> trunc \<Rightarrow> panic + (string \<times> trunc)" where
  "responseSection lib req limit t =
     (if length (Response req) > 0 then
        mapBlock lib ''h3. Complete Response\<newline>'' responseStart (Response req) limit t
      else Inr (responseStart @ ''No response data available.\<newline>'' @ sectionEnd, t))"

definition payloadSection ::
    "golib \<Rightarrow> TicketRequest \<Rightarrow> int \<Rightarrow> trunc \<Rightarrow> panic + (string \<times> trunc)" where
  "payloadSection lib req limit t =
     mapBlock lib ''h3. Complete Payload\<newline>'' payloadStart (Payload req) limit t"

section \<open>Assembly and the final check (CreateTicket, lines 101 to 326)\<close>

text \<open>The limits of lines 109 to 119 for a request.\<close>

definition limitsOf :: "golib \<Rightarrow> TicketRequest \<Rightarrow> limits" where
  "limitsOf lib req = allocate maxJiraDescLength (essentialLength lib req)"

text \<open>
  The four rendered sections and the builder, with the limits of lines 109 to 119. A
  panic in one section ends the run before the next.
\<close>

definition sections ::
    "golib \<Rightarrow> TicketRequest \<Rightarrow> panic + (string \<times> string \<times> string \<times> string \<times> trunc)" where
  "sections lib req =
     (let lim = limitsOf lib req
      in case networkCallsSection lib req (networkCallsLimit lim) trunc0 of
           Inl p \<Rightarrow> Inl p
         | Inr (ncSection, t1) \<Rightarrow>
       (case headerSection lib req (headersLimit lim) t1 of
           Inl p \<Rightarrow> Inl p
         | Inr (hSection, t2) \<Rightarrow>
       (case responseSection lib req (responseLimit lim) t2 of
           Inl p \<Rightarrow> Inl p
         | Inr (rSection, t3) \<Rightarrow>
       (case payloadSection lib req (payloadLimit lim) t3 of
           Inl p \<Rightarrow> Inl p
         | Inr (pSection, t4) \<Rightarrow> Inr (ncSection, hSection, rSection, pSection, t4)))))"

text \<open>
  The description and the builder as they stand at line 316: the fixed part, the
  timestamp (appended at line 106, before the sections), the network calls, the
  technical details heading, then headers, response and payload.
\<close>

definition preGuard :: "golib \<Rightarrow> TicketRequest \<Rightarrow> panic + (string \<times> trunc)" where
  "preGuard lib req =
     (case sections lib req of
        Inl p \<Rightarrow> Inl p
      | Inr (ncSection, hSection, rSection, pSection, t) \<Rightarrow>
          Inr (essentialDescription lib req @ timestamp lib @ ncSection
                 @ ''h3. Technical Details\<newline>\<newline>'' @ hSection @ rSection @ pSection, t))"

definition truncationNotice :: string where
  "truncationNotice = ''\<newline>\<newline>[Content truncated due to Jira character limit. See comments for complete information.]''"

definition finalCheck :: "string \<Rightarrow> trunc \<Rightarrow> panic + (string \<times> trunc)" where
  "finalCheck description t =
     (if len description > maxJiraDescLength then
        (case slice_to description (maxJiraDescLength - 100) of
           Inl p \<Rightarrow> Inl p
         | Inr head \<Rightarrow>
             Inr (head @ truncationNotice,
                  overflow ''h3. Full Original Description\<newline>'' description t))
      else Inr (description, t))"

text \<open>The description sent to Jira, and the builder, as they stand at line 327.\<close>

definition assemble :: "golib \<Rightarrow> TicketRequest \<Rightarrow> panic + (string \<times> trunc)" where
  "assemble lib req =
     (case preGuard lib req of
        Inl p \<Rightarrow> Inl p
      | Inr (description, t) \<Rightarrow> finalCheck description t)"

section \<open>When a section is cut\<close>

text \<open>
  The conditions under which lines 121 to 326 take a truncating branch, named for the
  statements below. \<open>ncText\<close> is the text the network calls section renders: the
  string itself, or the bytes from \<open>json.Marshal\<close>; there is none for a missing or
  nil value, or when marshalling fails. \<open>mapText\<close> is the text of the response or the
  payload with the margin its branch compares against.
\<close>

definition ncText :: "golib \<Rightarrow> TicketRequest \<Rightarrow> string option" where
  "ncText lib req =
     (case map_of (Payload req) ''failedNetworkCalls'' of
        None \<Rightarrow> None
      | Some networkCalls \<Rightarrow>
          if networkCalls = VNil then None
          else (case networkCalls of VString nc \<Rightarrow> Some nc | _ \<Rightarrow> Marshal lib networkCalls))"

definition ncCut :: "golib \<Rightarrow> TicketRequest \<Rightarrow> int \<Rightarrow> bool" where
  "ncCut lib req limit =
     (case ncText lib req of
        None \<Rightarrow> False
      | Some nc \<Rightarrow> len nc > limit - len ncStart - len sectionEnd - 20)"

text \<open>The fallback loop over the headers reaches its \<open>break\<close>.\<close>

fun headersOverflow :: "int \<Rightarrow> (string \<times> string) list \<Rightarrow> string \<Rightarrow> bool" where
  "headersOverflow lim [] headersStr = False"
| "headersOverflow lim ((k, v) # rest) headersStr =
     (let line = k @ '': '' @ v @ ''\<newline>''
      in if len headersStr + len line > lim then True
         else headersOverflow lim rest (headersStr @ line))"

definition headersCut :: "golib \<Rightarrow> TicketRequest \<Rightarrow> int \<Rightarrow> bool" where
  "headersCut lib req limit =
     (length (RequestHeaders req) > 0 \<and>
      (case MarshalIndent lib (headersValue (RequestHeaders req)) of
         Some headersJSON \<Rightarrow> len headersJSON > limit - len headersStart - len sectionEnd - 20
       | None \<Rightarrow>
           headersOverflow (limit - len headersStart - len sectionEnd - 30)
             (RequestHeaders req) ''''))"

definition mapText :: "golib \<Rightarrow> (string \<times> any) list \<Rightarrow> string \<times> int" where
  "mapText lib m =
     (case MarshalIndent lib (VObject m) of
        Some mJSON \<Rightarrow> (mJSON, 20)
      | None \<Rightarrow> (Sprint_v lib (VObject m), 30))"

definition mapCut :: "golib \<Rightarrow> string \<Rightarrow> (string \<times> any) list \<Rightarrow> int \<Rightarrow> bool" where
  "mapCut lib sectionStart m limit =
     (case mapText lib m of
        (text, margin) \<Rightarrow> len text > limit - len sectionStart - len sectionEnd - margin)"

definition responseCut :: "golib \<Rightarrow> TicketRequest \<Rightarrow> int \<Rightarrow> bool" where
  "responseCut lib req limit =
     (length (Response req) > 0 \<and> mapCut lib responseStart (Response req) limit)"

definition payloadCut :: "golib \<Rightarrow> TicketRequest \<Rightarrow> int \<Rightarrow> bool" where
  "payloadCut lib req limit = mapCut lib payloadStart (Payload req) limit"

text \<open>The final check fires: the whole description is cut.\<close>

definition wholeCut :: "golib \<Rightarrow> TicketRequest \<Rightarrow> bool" where
  "wholeCut lib req =
     (case preGuard lib req of
        Inl p \<Rightarrow> False
      | Inr (description, t) \<Rightarrow> len description > maxJiraDescLength)"

definition anyCut :: "golib \<Rightarrow> TicketRequest \<Rightarrow> bool" where
  "anyCut lib req =
     (let lim = limitsOf lib req
      in ncCut lib req (networkCallsLimit lim) \<or> headersCut lib req (headersLimit lim)
         \<or> responseCut lib req (responseLimit lim) \<or> payloadCut lib req (payloadLimit lim)
         \<or> wholeCut lib req)"

section \<open>Submission (CreateTicket, lines 328 to 563)\<close>

text \<open>
  The service and its collaborators. The Jira client, the random source and the MongoDB
  service are outside the repository's control: their answers are parameters.
  \<open>mongoService\<close> says whether the pointer is non-nil.
\<close>

record JiraService =
  projectKey :: string
  supportTeam :: "string list"
  defaultPriority :: string
  mongoService :: bool

record IssueType =
  Name :: string
  Id :: string

record MetaProject =
  Key :: string
  IssueTypes :: "IssueType list"

record Issue =
  Project :: string
  Summary :: string
  Description :: string
  Type :: string
  Assignee :: string

text \<open>
  The projection saved to MongoDB (the fields of \<open>FlattenedTicket\<close> that CreateTicket
  fills, but for \<open>CreatedAt\<close>, a second reading of the clock).
\<close>

record FlattenedTicket =
  ft_TicketID :: string
  ft_Status :: string
  ft_AssignedTo :: string
  ft_JiraLink :: string
  ft_Issue :: string
  ft_Description :: string
  ft_UserEmail :: string
  ft_LeadID :: string
  ft_Product :: string
  ft_PageURL :: string
  ft_ImageURL :: string
  ft_FailedNetworkCallsJSON :: string
  ft_PayloadJSON :: string
  ft_ResponseJSON :: string
  ft_RequestHeadersJSON :: string

text \<open>
  A failed \<open>Issue.Create\<close>: the error's text, and of a non-nil response its status code
  and what the one \<open>Read\<close> of at most 1024 bytes returned (empty for a nil body).
\<close>

record CreateFailure =
  errText :: string
  resp :: "(int \<times> string) option"

record collaborators =
  Intn :: "nat \<Rightarrow> nat"
  GetCreateMeta :: "string \<Rightarrow> MetaProject list option"
  Create :: "Issue \<Rightarrow> CreateFailure + string"
  AddComment :: "string \<Rightarrow> string \<Rightarrow> string option"
  SaveTicket :: "FlattenedTicket \<Rightarrow> string + string"
  BaseURLHost :: string

text \<open>The errors the two functions return to their callers.\<close>

datatype error = FailedToCreateJiraTicket int string string | CouldNotParseNetworkCalls

text \<open>The calls made on the collaborators, in order.\<close>

datatype call = GetCreateMetaCall string | CreateCall Issue
  | AddCommentCall string string | SaveTicketCall FlattenedTicket

text \<open>A call that adds a comment.\<close>

fun isAddComment :: "call \<Rightarrow> bool" where
  "isAddComment (AddCommentCall key body) = True"
| "isAddComment c = False"

text \<open>Lines 331 to 352: the last issue type named Bug of a project with the key wins.\<close>

definition bugTypeOf :: "string \<Rightarrow> MetaProject list \<Rightarrow> string" where
  "bugTypeOf pk projects =
     foldl (\<lambda>issueTypeID project.
              if Key project = pk
              then foldl (\<lambda>issueTypeID issueType.
                            if Name issueType = ''Bug'' then Id issueType else issueTypeID)
                     issueTypeID (IssueTypes project)
              else issueTypeID) '''' projects"

definition issueTypeID :: "string \<Rightarrow> MetaProject list option \<Rightarrow> string" where
  "issueTypeID pk meta =
     (let found = (case meta of None \<Rightarrow> ''10001'' | Some projects \<Rightarrow> bugTypeOf pk projects)
      in if found = '''' then ''10001'' else found)"

definition commentNotice :: string where
  "commentNotice = ''\<newline>\<newline>[Comment truncated due to Jira character limit]''"

text \<open>Lines 458 to 463.\<close>

definition commentBody :: "trunc \<Rightarrow> panic + string" where
  "commentBody t =
     (if len (truncatedContent t) > maxJiraDescLength then
        (case slice_to (truncatedContent t) (maxJiraDescLength - 100) of
           Inl p \<Rightarrow> Inl p
         | Inr head \<Rightarrow> Inr (head @ commentNotice))
      else Inr (truncatedContent t))"

definition orEmpty :: "string option \<Rightarrow> string" where
  "orEmpty x = (case x of None \<Rightarrow> '''' | Some s \<Rightarrow> s)"

definition jiraLink :: "collaborators \<Rightarrow> string \<Rightarrow> string" where
  "jiraLink w key = ''https://'' @ BaseURLHost w @ ''/browse/'' @ key"

text \<open>Lines 482 to 549.\<close>

definition flatten ::
    "golib \<Rightarrow> collaborators \<Rightarrow> TicketRequest \<Rightarrow> string \<Rightarrow> string \<Rightarrow> FlattenedTicket" where
  "flatten lib w req key assignee =
     \<lparr>ft_TicketID = key,
      ft_Status = ''created'',
      ft_AssignedTo = assignee,
      ft_JiraLink = jiraLink w key,
      ft_Issue = orEmpty (asString (index (Payload req) ''issue'')),
      ft_Description = orEmpty (asString (index (Payload req) ''description'')),
      ft_UserEmail = orEmpty (asString (index (Payload req) ''userEmail'')),
      ft_LeadID = orEmpty (asString (index (Payload req) ''leadId'')),
      ft_Product = orEmpty (asString (index (Payload req) ''product'')),
      ft_PageURL = (case asString (index (Payload req) ''url'') of
                      Some pageURL \<Rightarrow> pageURL | None \<Rightarrow> URL req),
      ft_ImageURL = (if validImage (ImageS3URL req) then ImageS3URL req else ''''),
      ft_FailedNetworkCallsJSON =
        (case map_of (Payload req) ''failedNetworkCalls'' of
           None \<Rightarrow> ''''
         | Some networkCalls \<Rightarrow>
             (case Marshal lib networkCalls of
                Some networkCallsJSON \<Rightarrow> networkCallsJSON
              | None \<Rightarrow> orEmpty (asString networkCalls))),
      ft_PayloadJSON = orEmpty (Marshal lib (VObject (Payload req))),
      ft_ResponseJSON = orEmpty (Marshal lib (VObject (Response req))),
      ft_RequestHeadersJSON = orEmpty (Marshal lib (headersValue (RequestHeaders req)))\<rparr>"

text \<open>
  Lines 456 to 478: the comment, only when something was truncated. Its error is
  printed and dropped; what is left of it is the call.
\<close>

definition addTruncatedComment :: "collaborators \<Rightarrow> string \<Rightarrow> trunc \<Rightarrow> panic + call list" where
  "addTruncatedComment w key t =
     (if wasTruncated t then
        (case commentBody t of
           Inl p \<Rightarrow> Inl p
         | Inr body \<Rightarrow>
             (case AddComment w key body of
                Some err \<Rightarrow> Inr [AddCommentCall key body]
              | None \<Rightarrow> Inr [AddCommentCall key body]))
      else Inr [])"

text \<open>Lines 480 to 560: the save, only with a MongoDB service; its error is dropped too.\<close>

definition saveToMongo ::
    "golib \<Rightarrow> JiraService \<Rightarrow> collaborators \<Rightarrow> TicketRequest \<Rightarrow> string \<Rightarrow> string \<Rightarrow> call list" where
  "saveToMongo lib s w req key assignee =
     (if mongoService s then
        (case SaveTicket w (flatten lib w req key assignee) of
           Inl err \<Rightarrow> [SaveTicketCall (flatten lib w req key assignee)]
         | Inr mongoID \<Rightarrow> [SaveTicketCall (flatten lib w req key assignee)])
      else [])"

text \<open>Lines 422 to 440: the error built from a failed \<open>Issue.Create\<close>.\<close>

definition createError :: "CreateFailure \<Rightarrow> error" where
  "createError f =
     (case resp f of
        None \<Rightarrow> FailedToCreateJiraTicket 0 (errText f) ''''
      | Some (statusCode, responseBody) \<Rightarrow>
          FailedToCreateJiraTicket statusCode (errText f) responseBody)"

text \<open>Lines 354 to 375: the issue sent to Jira; the priority is left out.\<close>

definition issueFields ::
    "golib \<Rightarrow> JiraService \<Rightarrow> collaborators \<Rightarrow> TicketRequest \<Rightarrow> string \<Rightarrow> string \<Rightarrow> Issue" where
  "issueFields lib s w req description assignee =
     \<lparr>Project = projectKey s,
      Summary = ''Issue Report: '' @ fmt_s lib (index (Payload req) ''issue''),
      Description = description,
      Type = issueTypeID (projectKey s) (GetCreateMeta w (projectKey s)),
      Assignee = assignee\<rparr>"

text \<open>
  CreateTicket: what it returns (an error or the response) and the calls it made, or a
  panic. The printed log lines change neither.
\<close>

definition CreateTicket ::
    "golib \<Rightarrow> JiraService \<Rightarrow> collaborators \<Rightarrow> TicketRequest
      \<Rightarrow> panic + ((error + TicketResponse) \<times> call list)" where
  "CreateTicket lib s w req =
     (case assemble lib req of
        Inl p \<Rightarrow> Inl p
      | Inr (description, t) \<Rightarrow>
     (case getRandomTeamMember (Intn w) (supportTeam s) of
        Inl p \<Rightarrow> Inl p
      | Inr assignee \<Rightarrow>
          (let issue = issueFields lib s w req description assignee;
               calls = [GetCreateMetaCall (projectKey s), CreateCall issue]
           in case Create w issue of
                Inl failure \<Rightarrow> Inr (Inl (createError failure), calls)
              | Inr key \<Rightarrow>
                  (let ticketResponse = \<lparr>TicketID = key, Status = ''created'',
                                         AssignedTo = assignee, JiraLink = jiraLink w key\<rparr>
                   in case addTruncatedComment w key t of
                        Inl p \<Rightarrow> Inl p
                      | Inr commentCalls \<Rightarrow>
                          Inr (Inr ticketResponse,
                               calls @ commentCalls @ saveToMongo lib s w req key assignee)))))"

section \<open>The network-call parser (models/ticket.go, GetNetworkCalls, lines 54 to 104)\<close>

record RequestData =
  Method :: string
  Url :: string
  Headers :: "(string \<times> string) list"
  Body :: any

record NetworkCall =
  RequestData :: RequestData
  ResponseStatus :: int
  ResponseHeaders :: string
  ResponseBody :: string
  PageURL :: string
  Timestamp :: string

text \<open>
  \<open>json.Unmarshal\<close> of encoding/json is a parameter. Into \<open>&calls\<close> it is given the
  bytes and the slice as it stands and returns the slice as it leaves it and the error
  (\<open>None\<close> for nil): Go leaves the target alone on a syntax error and fills what it
  can before a type error. Into \<open>&decodedString\<close> the string is read only on success.
\<close>

record jsonlib =
  UnmarshalCalls :: "string \<Rightarrow> NetworkCall list \<Rightarrow> NetworkCall list \<times> string option"
  UnmarshalString :: "string \<Rightarrow> string option"

definition dquote :: char where
  "dquote = CHR 0x22"

definition squote :: char where
  "squote = CHR 0x27"

definition bslash :: char where
  "bslash = CHR 0x5C"

text \<open>
  \<open>strings.TrimSpace\<close>: the leading and trailing white space runes go, as
  \<open>unicode.IsSpace\<close> defines them. \<open>spaces\<close> lists their UTF-8 encodings: tab, line
  feed, vertical tab, form feed, carriage return and space, then U+0085, U+00A0, U+1680,
  U+2000 to U+200A, U+2028, U+2029, U+202F, U+205F and U+3000. A byte sequence that is
  not valid UTF-8 decodes to no space and stops the trimming, as in Go; each encoding is
  a lead byte followed by continuation bytes, so a string begins (ends) with one of
  them exactly when its first (last) rune is that space.
\<close>

definition spaces :: "string list" where
  "spaces =
     [[CHR 0x09], [CHR 0x0A], [CHR 0x0B], [CHR 0x0C], [CHR 0x0D], [CHR 0x20],
      [CHR 0xC2, CHR 0x85], [CHR 0xC2, CHR 0xA0], [CHR 0xE1, CHR 0x9A, CHR 0x80],
      [CHR 0xE2, CHR 0x80, CHR 0x80], [CHR 0xE2, CHR 0x80, CHR 0x81],
      [CHR 0xE2, CHR 0x80, CHR 0x82], [CHR 0xE2, CHR 0x80, CHR 0x83],
      [CHR 0xE2, CHR 0x80, CHR 0x84], [CHR 0xE2, CHR 0x80, CHR 0x85],
      [CHR 0xE2, CHR 0x80, CHR 0x86], [CHR 0xE2, CHR 0x80, CHR 0x87],
      [CHR 0xE2, CHR 0x80, CHR 0x88], [CHR 0xE2, CHR 0x80, CHR 0x89],
      [CHR 0xE2, CHR 0x80, CHR 0x8A], [CHR 0xE2, CHR 0x80, CHR 0xA8],
      [CHR 0xE2, CHR 0x80, CHR 0xA9], [CHR 0xE2, CHR 0x80, CHR 0xAF],
      [CHR 0xE2, CHR 0x81, CHR 0x9F], [CHR 0xE3, CHR 0x80, CHR 0x80]]"

text \<open>The number of bytes of the white space rune a string begins with, or ends with.\<close>

definition leadingSpace :: "string \<Rightarrow> nat" where
  "leadingSpace s = (case find (\<lambda>e. prefix e s) spaces of None \<Rightarrow> 0 | Some e \<Rightarrow> length e)"

definition trailingSpace :: "string \<Rightarrow> nat" where
  "trailingSpace s = (case find (\<lambda>e. suffix e s) spaces of None \<Rightarrow> 0 | Some e \<Rightarrow> length e)"

function TrimLeft :: "string \<Rightarrow> string" where
  "TrimLeft s = (if leadingSpace s = 0 then s else TrimLeft (drop (leadingSpace s) s))"
  by pat_completeness auto
termination
proof (relation "measure length")
  show "wf (measure length)" by simp
next
  fix s :: string
  assume "leadingSpace s \<noteq> 0"
  then obtain e where "find (\<lambda>e. prefix e s) spaces = Some e" and "e \<noteq> []"
    by (auto simp: leadingSpace_def split: option.splits)
  then have "prefix e s" and "e \<noteq> []"
    by (auto simp: find_Some_iff)
  then have "s \<noteq> []" by auto
  with \<open>leadingSpace s \<noteq> 0\<close> show "(drop (leadingSpace s) s, s) \<in> measure length"
    by simp
qed

function TrimRight :: "string \<Rightarrow> string" where
  "TrimRight s =
     (if trailingSpace s = 0 then s else TrimRight (take (length s - trailingSpace s) s))"
  by pat_completeness auto
termination
proof (relation "measure length")
  show "wf (measure length)" by simp
next
  fix s :: string
  assume "trailingSpace s \<noteq> 0"
  then obtain e where "find (\<lambda>e. suffix e s) spaces = Some e" and "e \<noteq> []"
    by (auto simp: trailingSpace_def split: option.splits)
  then have "suffix e s" and "e \<noteq> []"
    by (auto simp: find_Some_iff)
  then have "s \<noteq> []" by (auto simp: suffix_def)
  with \<open>trailingSpace s \<noteq> 0\<close> show "(take (length s - trailingSpace s) s, s) \<in> measure length"
    by simp
qed

definition TrimSpace :: "string \<Rightarrow> string" where
  "TrimSpace s = TrimRight (TrimLeft s)"

declare TrimLeft.simps [simp del] TrimRight.simps [simp del]

text \<open>
  \<open>strings.ReplaceAll(s, old, new)\<close> for a two-byte \<open>old = [a, b]\<close>: the
  non-overlapping occurrences, from the left.
\<close>

fun ReplaceAll2 :: "string \<Rightarrow> char \<Rightarrow> char \<Rightarrow> string \<Rightarrow> string" where
  "ReplaceAll2 (x # y # s) a b new =
     (if x = a \<and> y = b then new @ ReplaceAll2 s a b new else x # ReplaceAll2 (y # s) a b new)"
| "ReplaceAll2 s a b new = s"

text \<open>Lines 69 to 74: the outer quotes come off by \<open>input[1 : len(input)-1]\<close>.\<close>

definition stripQuotes :: "string \<Rightarrow> panic + string" where
  "stripQuotes input =
     (if (prefix [dquote] input \<and> suffix [dquote] input)
         \<or> (prefix [squote] input \<and> suffix [squote] input)
      then slice input 1 (len input - 1)
      else Inr input)"

text \<open>Lines 76 to 80.\<close>

definition unescape :: "string \<Rightarrow> string" where
  "unescape input = ReplaceAll2 (ReplaceAll2 input bslash dquote [dquote]) bslash bslash [bslash]"

definition GetNetworkCalls ::
    "jsonlib \<Rightarrow> string \<Rightarrow> panic + (NetworkCall list \<times> error option)" where
  "GetNetworkCalls lib FailedNetworkCalls =
     (if FailedNetworkCalls = '''' then Inr ([], None)
      else
        (case UnmarshalCalls lib FailedNetworkCalls [] of
           (calls, None) \<Rightarrow> Inr (calls, None)
         | (calls, Some err) \<Rightarrow>
        (case stripQuotes (TrimSpace FailedNetworkCalls) of
           Inl p \<Rightarrow> Inl p
         | Inr stripped \<Rightarrow>
        (let input = unescape stripped
         in case UnmarshalCalls lib input calls of
              (calls, None) \<Rightarrow> Inr (calls, None)
            | (calls, Some err) \<Rightarrow>
                (case UnmarshalString lib input of
                   None \<Rightarrow> Inr (calls, Some CouldNotParseNetworkCalls)
                 | Some decodedString \<Rightarrow>
                     (case UnmarshalCalls lib decodedString calls of
                        (calls, None) \<Rightarrow> Inr (calls, None)
                      | (calls, Some err) \<Rightarrow> Inr (calls, Some CouldNotParseNetworkCalls)))))))"

section \<open>Sample inputs\<close>

text \<open>
  Inputs at which the theorems below are instantiated. \<open>filler n\<close> is a text of
  \<open>n\<close> bytes; \<open>sampleLib\<close> is a library whose JSON encodings are long (20000
  bytes from Marshal, 7000 from MarshalIndent), \<open>sampleRequest\<close> a report with a long
  list of failed network calls, and \<open>longIssueRequest\<close> a report whose issue title
  alone is as long as the ceiling.
\<close>

definition filler :: "nat \<Rightarrow> string" where
  "filler n = replicate n (CHR ''x'')"

definition sampleLib :: golib where
  "sampleLib =
     \<lparr>Sprint_s = (\<lambda>v. ''%!s(<nil>)''),
      Sprint_v = (\<lambda>v. ''map[]''),
      Marshal = (\<lambda>v. Some (filler 20000)),
      MarshalIndent = (\<lambda>v. Some (filler 7000)),
      Now = ''Mon, 02 Jan 2006 15:04:05 MST''\<rparr>"

definition sampleRequest :: TicketRequest where
  "sampleRequest =
     \<lparr>URL = ''https://example.com/page'',
      Payload = [(''issue'', VString ''Checkout fails''),
                 (''failedNetworkCalls'', VString (filler 20000))],
      Response = [(''status'', VString ''reported'')],
      RequestHeaders = [(''Content-Type'', ''multipart/form-data'')],
      ImageS3URL = ''''\<rparr>"

definition longIssueRequest :: TicketRequest where
  "longIssueRequest =
     \<lparr>URL = '''',
      Payload = [(''issue'', VString (filler 32000)),
                 (''description'', VString ''Steps to reproduce'')],
      Response = [(''status'', VString ''reported'')],
      RequestHeaders = [(''Content-Type'', ''multipart/form-data'')],
      ImageS3URL = ''''\<rparr>"

definition sampleService :: JiraService where
  "sampleService =
     \<lparr>projectKey = ''SUP'', supportTeam = [''alice'', ''bob''], defaultPriority = ''Medium'',
      mongoService = True\<rparr>"

text \<open>
  Collaborators that all fail after the ticket is created: the metadata lookup, the
  comment and the save. The ticket itself is created as SUP-1.
\<close>

definition sampleWorld :: collaborators where
  "sampleWorld =
     \<lparr>Intn = (\<lambda>n. n - 1),
      GetCreateMeta = (\<lambda>pk. None),
      Create = (\<lambda>issue. Inr ''SUP-1''),
      AddComment = (\<lambda>key body. Some ''comment refused''),
      SaveTicket = (\<lambda>ticket. Inl ''no connection''),
      BaseURLHost = ''jira.example.com''\<rparr>"

text \<open>
  A JSON array of one failed call written on three lines, encoded once more as a JSON
  string (\<open>doubledCalls\<close>: the line feeds become backslash n, the quotes backslash
  quote), and what lines 69 to 80 make of that string (\<open>cleanedCalls\<close>: the outer
  quotes and the backslashes before quotes are gone, backslash n stays).
\<close>

definition doubledCalls :: string where
  "doubledCalls =
     [dquote] @ ''['' @ [bslash] @ ''n{'' @ [bslash, dquote] @ ''responseStatus''
     @ [bslash, dquote] @ '':500}'' @ [bslash] @ ''n]'' @ [dquote]"

definition cleanedCalls :: string where
  "cleanedCalls =
     ''['' @ [bslash] @ ''n{'' @ [dquote] @ ''responseStatus'' @ [dquote] @ '':500}''
     @ [bslash] @ ''n]''"

text \<open>
  A library whose encodings are 40 bytes long and a report with nothing but a title: no
  section is cut.
\<close>

definition terseLib :: golib where
  "terseLib =
     \<lparr>Sprint_s = (\<lambda>v. ''%!s(<nil>)''),
      Sprint_v = (\<lambda>v. ''map[]''),
      Marshal = (\<lambda>v. Some (filler 40)),
      MarshalIndent = (\<lambda>v. Some (filler 40)),
      Now = ''Mon, 02 Jan 2006 15:04:05 MST''\<rparr>"

definition plainRequest :: TicketRequest where
  "plainRequest =
     \<lparr>URL = ''https://example.com/page'',
      Payload = [(''issue'', VString ''Checkout fails'')],
      Response = [],
      RequestHeaders = [],
      ImageS3URL = ''''\<rparr>"

text \<open>
  The same array before its second encoding (\<open>plainCalls\<close>, with real line feeds),
  the call it holds, and \<open>tableLib\<close>: the answers of encoding/json on the four texts
  used below. Of \<open>plainCalls\<close>, \<open>doubledCalls\<close>, \<open>cleanedCalls\<close> and the
  one-quote text, only \<open>plainCalls\<close> is a JSON array and only \<open>doubledCalls\<close> is a
  JSON string; a text that is not JSON, or not of the target's kind, leaves the target
  as it was.
\<close>

definition plainCalls :: string where
  "plainCalls =
     ''['' @ [CHR 0x0A] @ ''{'' @ [dquote] @ ''responseStatus'' @ [dquote] @ '':500}''
     @ [CHR 0x0A] @ '']''"

definition call500 :: NetworkCall where
  "call500 =
     \<lparr>RequestData = \<lparr>Method = '''', Url = '''', Headers = [], Body = VNil\<rparr>,
      ResponseStatus = 500, ResponseHeaders = '''', ResponseBody = '''', PageURL = '''',
      Timestamp = ''''\<rparr>"

definition tableLib :: jsonlib where
  "tableLib =
     \<lparr>UnmarshalCalls =
        (\<lambda>data calls. if data = plainCalls then ([call500], None)
                       else (calls, Some ''json: cannot unmarshal'')),
      UnmarshalString = (\<lambda>data. if data = doubledCalls then Some plainCalls else None)\<rparr>"

text \<open>
  The report with nothing but a title and 20000 bytes of failed network calls: with
  \<open>terseLib\<close> only the network calls section is cut. And a report whose title is
  30474 bytes long: its fixed part is 30605 bytes, under the ceiling (\<open>sampleClock\<close>
  is the clock's reading in the samples).
\<close>

definition cutCallsRequest :: TicketRequest where
  "cutCallsRequest =
     \<lparr>URL = ''https://example.com/page'',
      Payload = [(''issue'', VString ''Checkout fails''),
                 (''failedNetworkCalls'', VString (filler 20000))],
      Response = [],
      RequestHeaders = [],
      ImageS3URL = ''''\<rparr>"

definition sampleClock :: string where
  "sampleClock = ''Mon, 02 Jan 2006 15:04:05 MST''"

definition nearCeilingRequest :: TicketRequest where
  "nearCeilingRequest =
     \<lparr>URL = ''https://example.com/page'',
      Payload = [(''issue'', VString (filler 30474))],
      Response = [(''status'', VString ''reported'')],
      RequestHeaders = [(''Content-Type'', ''application/json'')],
      ImageS3URL = ''''\<rparr>"

section \<open>Theorems\<close>

lemma quo_pos: "0 \<le> a \<Longrightarrow> 0 < b \<Longrightarrow> quo a b = a div b"
  by (cases "a = 0") (simp_all add: quo_def)

text \<open>
  C2. For every pair (ceiling, essentialLength) the four allocations sum exactly to
  remaining = ceiling - essentialLength, the network calls, headers and response shares
  being remaining/2, remaining/5 and remaining/5 and the payload share absorbing the
  rest; essentialLength = 30000 under the ceiling 32000 gives 1000, 400, 400 and 200.
\<close>

theorem allocate_sums_to_remaining:
  "networkCallsLimit (allocate c e) + headersLimit (allocate c e)
     + responseLimit (allocate c e) + payloadLimit (allocate c e) = remainingChars c e
   \<and> remainingChars c e = c - e
   \<and> networkCallsLimit (allocate c e) = quo (remainingChars c e) 2
   \<and> headersLimit (allocate c e) = quo (remainingChars c e) 5
   \<and> responseLimit (allocate c e) = quo (remainingChars c e) 5
   \<and> allocate maxJiraDescLength 30000 =
       \<lparr>networkCallsLimit = 1000, headersLimit = 400, responseLimit = 400, payloadLimit = 200\<rparr>"
  by (simp add: allocate_def remainingChars_def Let_def maxJiraDescLength_def quo_def)

text \<open>
  C9. The assignee selector returns the empty string for an empty roster, and for a
  non-empty roster it returns an element of the roster (the random source keeping its
  contract \<open>Intn n < n\<close>).
\<close>

theorem getRandomTeamMember_in_roster:
  "getRandomTeamMember intn [] = Inr ''''
   \<and> (roster \<noteq> [] \<longrightarrow> (\<forall>n>0. intn n < n) \<longrightarrow>
        (\<exists>m \<in> set roster. getRandomTeamMember intn roster = Inr m))"
  by (auto simp: getRandomTeamMember_def Let_def)

theorem getRandomTeamMember_in_roster_witness:
  "[''alice'', ''bob''] \<noteq> []
   \<and> getRandomTeamMember (\<lambda>n. n - 1) [] = Inr ''''
   \<and> (\<exists>m \<in> set [''alice'', ''bob'']. getRandomTeamMember (\<lambda>n. n - 1) [''alice'', ''bob''] = Inr m)"
  using getRandomTeamMember_in_roster [of "\<lambda>n. n - 1" "[''alice'', ''bob'']"]
  by auto

subsection \<open>Lengths\<close>

lemma len_append [simp]: "len (a @ b) = len a + len b"
  by (simp add: len_def)

lemma len_nonneg [simp]: "0 \<le> len s"
  by (simp add: len_def)

lemma len_Nil: "len [] = 0"
  by (simp add: len_def)

lemma len_Cons: "len (c # s) = 1 + len s"
  by (simp add: len_def)

lemma len_sectionEnd [simp]: "len sectionEnd = 9"
  by (simp add: len_def sectionEnd_def)

lemma len_ncStart [simp]: "len ncStart = 119"
  by (simp add: len_def ncStart_def)

lemma len_headersStart [simp]: "len headersStart = 114"
  by (simp add: len_def headersStart_def)

lemma len_responseStart [simp]: "len responseStart = 107"
  by (simp add: len_def responseStart_def)

lemma len_payloadStart [simp]: "len payloadStart = 116"
  by (simp add: len_def payloadStart_def)

lemma len_truncationNotice [simp]: "len truncationNotice = 89"
  by (simp add: len_def truncationNotice_def)

lemma len_filler [simp]: "len (filler n) = int n"
  by (simp add: len_def filler_def)

lemma len_take_filler [simp]: "k \<le> n \<Longrightarrow> len (take k (filler n)) = int k"
  by (simp add: len_def filler_def)

lemma slice_to_Inr:
  "slice_to s n = Inr h \<longleftrightarrow> 0 \<le> n \<and> n \<le> len s \<and> h = take (nat n) s"
  by (auto simp: slice_to_def)

lemma slice_to_Inl:
  "slice_to s n = Inl p \<longleftrightarrow> (n < 0 \<or> len s < n) \<and> p = SliceBoundsOutOfRange"
  by (auto simp: slice_to_def)

subsection \<open>The final check\<close>

lemma finalCheck_fires:
  "maxJiraDescLength < len d \<Longrightarrow>
   finalCheck d t = Inr (take (nat (maxJiraDescLength - 100)) d @ truncationNotice,
                         overflow ''h3. Full Original Description\<newline>'' d t)"
  by (simp add: finalCheck_def slice_to_def maxJiraDescLength_def)

lemma finalCheck_idle:
  "len d \<le> maxJiraDescLength \<Longrightarrow> finalCheck d t = Inr (d, t)"
  by (simp add: finalCheck_def)

lemma assemble_preGuard:
  "assemble lib req = Inr (description, t) \<Longrightarrow>
   \<exists>d0 t0. preGuard lib req = Inr (d0, t0) \<and> finalCheck d0 t0 = Inr (description, t)"
  by (auto simp: assemble_def split: sum.splits)

subsection \<open>The sample report\<close>

lemma essentialLength_sample: "essentialLength sampleLib sampleRequest = 145"
  by (simp add: essentialLength_def essentialDescription_def issueSummary_def
      descriptionSection_def userInformation_def metadataSection_def metadataLine_def
      pageURLLine_def screenshot_def validImage_def timestamp_def sampleLib_def
      sampleRequest_def index_def asString_def fmt_s_def len_def)

lemma allocate_sample:
  "allocate maxJiraDescLength 145 =
     \<lparr>networkCallsLimit = 15927, headersLimit = 6371, responseLimit = 6371, payloadLimit = 3186\<rparr>"
  by (simp add: allocate_def remainingChars_def maxJiraDescLength_def quo_def Let_def)

lemma sections_sample:
  "sections sampleLib sampleRequest =
     Inr (ncStart @ ''Network calls data truncated to fit Jira limit:\<newline>''
            @ (''{code:json}\<newline>'' @ take 15749 (filler 20000)
                 @ ''\<newline>...[truncated]...\<newline>{code}\<newline>'') @ sectionEnd,
          headersStart @ ((''{code:json}\<newline>'' @ take 6218 (filler 7000)
                 @ ''\<newline>...[truncated]...\<newline>'') @ ''\<newline>{code}\<newline>'') @ sectionEnd,
          responseStart @ ((''{code:json}\<newline>'' @ take 6225 (filler 7000)
                 @ ''\<newline>...[truncated]...\<newline>'') @ ''\<newline>{code}\<newline>'') @ sectionEnd,
          payloadStart @ ((''{code:json}\<newline>'' @ take 3031 (filler 7000)
                 @ ''\<newline>...[truncated]...\<newline>'') @ ''\<newline>{code}\<newline>'') @ sectionEnd,
          overflow ''h3. Complete Payload\<newline>''
            (''{code:json}\<newline>'' @ filler 7000 @ ''\<newline>{code}\<newline>'')
            (overflow ''h3. Complete Response\<newline>''
              (''{code:json}\<newline>'' @ filler 7000 @ ''\<newline>{code}\<newline>'')
              (overflow ''h3. Complete Request Headers\<newline>''
                (''{code:json}\<newline>'' @ filler 7000 @ ''\<newline>{code}\<newline>'')
                (overflow ''h3. Complete Network Calls\<newline>''
                  (''{code:json}\<newline>'' @ filler 20000 @ ''\<newline>{code}\<newline>'') trunc0))))"
  unfolding sections_def limitsOf_def essentialLength_sample allocate_sample
  by (simp add: networkCallsSection_def ncBody_def headerSection_def responseSection_def
      payloadSection_def mapBlock_def truncateBlock_def slice_to_def sampleLib_def
      sampleRequest_def headersValue_def Let_def)

lemma preGuard_sample:
  "\<exists>d t. preGuard sampleLib sampleRequest = Inr (d, t) \<and> len d = 32086"
proof -
  have e: "len (essentialDescription sampleLib sampleRequest) + len (timestamp sampleLib) = 145"
    using essentialLength_sample by (simp add: essentialLength_def)
  show ?thesis
    unfolding preGuard_def sections_sample
    using e by (simp add: len_Cons len_Nil)
qed

lemma assemble_len:
  "assemble lib req = Inr (description, t) \<Longrightarrow> len description \<le> maxJiraDescLength"
proof -
  assume "assemble lib req = Inr (description, t)"
  then obtain d0 t0 where fin: "finalCheck d0 t0 = Inr (description, t)"
    using assemble_preGuard by blast
  show ?thesis
  proof (cases "maxJiraDescLength < len d0")
    case True
    with fin have "description = take (nat (maxJiraDescLength - 100)) d0 @ truncationNotice"
      by (simp add: finalCheck_fires)
    moreover from True have "len (take (nat (maxJiraDescLength - 100)) d0) = 31900"
      by (simp add: len_def maxJiraDescLength_def)
    ultimately show ?thesis by (simp add: maxJiraDescLength_def)
  next
    case False
    with fin show ?thesis by (simp add: finalCheck_idle)
  qed
qed

text \<open>
  C5. When the final check fires (the assembled description is longer than 32000), the
  builder of the overflow document receives the heading "h3. Full Original Description"
  and under it the whole description as it stood, and the description becomes its first
  32000 - 100 bytes followed by the fixed notice.
\<close>

theorem final_check_keeps_whole_description:
  "preGuard lib req = Inr (description, t) \<Longrightarrow> maxJiraDescLength < len description \<Longrightarrow>
   assemble lib req =
     Inr (take (nat (maxJiraDescLength - 100)) description @ truncationNotice,
          \<lparr>wasTruncated = True,
           truncatedContent = truncatedContent t @ ''h3. Full Original Description\<newline>''
             @ description @ ''\<newline>\<newline>''\<rparr>)"
  by (simp add: assemble_def finalCheck_fires overflow_def)

theorem final_check_keeps_whole_description_witness:
  "\<exists>d t. preGuard sampleLib sampleRequest = Inr (d, t) \<and> maxJiraDescLength < len d
     \<and> assemble sampleLib sampleRequest =
         Inr (take (nat (maxJiraDescLength - 100)) d @ truncationNotice,
              \<lparr>wasTruncated = True,
               truncatedContent = truncatedContent t @ ''h3. Full Original Description\<newline>''
                 @ d @ ''\<newline>\<newline>''\<rparr>)"
proof -
  obtain d0 t0 where pre: "preGuard sampleLib sampleRequest = Inr (d0, t0)"
    and long: "len d0 = 32086"
    using preGuard_sample by blast
  from long have "maxJiraDescLength < len d0"
    by (simp add: maxJiraDescLength_def)
  with pre final_check_keeps_whole_description [of sampleLib sampleRequest d0 t0]
  show ?thesis by blast
qed

subsection \<open>Limits too small for the wrappers\<close>

lemma ncBody_panic: "ncBody nc limit t = Inl p \<Longrightarrow> p = SliceBoundsOutOfRange"
  by (auto simp: ncBody_def Let_def slice_to_Inl split: if_splits sum.splits)

lemma networkCallsSection_panic:
  "networkCallsSection lib req limit t = Inl p \<Longrightarrow> p = SliceBoundsOutOfRange"
  by (auto simp: networkCallsSection_def split: option.splits if_splits sum.splits any.splits
      dest: ncBody_panic)

lemma truncateBlock_panic:
  "truncateBlock heading sectionStart margin text limit t = Inl p \<Longrightarrow> p = SliceBoundsOutOfRange"
  by (auto simp: truncateBlock_def Let_def slice_to_Inl split: if_splits sum.splits)

lemma headerSection_panic:
  "headerSection lib req limit t = Inl p \<Longrightarrow> p = SliceBoundsOutOfRange"
  by (auto simp: headerSection_def split: option.splits if_splits sum.splits prod.splits
      dest: truncateBlock_panic)

lemma mapBlock_panic:
  "mapBlock lib heading sectionStart m limit t = Inl p \<Longrightarrow> p = SliceBoundsOutOfRange"
  by (auto simp: mapBlock_def split: option.splits sum.splits dest: truncateBlock_panic)

lemma responseSection_panic:
  "responseSection lib req limit t = Inl p \<Longrightarrow> p = SliceBoundsOutOfRange"
  by (auto simp: responseSection_def split: if_splits dest: mapBlock_panic)

lemma truncateBlock_small:
  "limit - len sectionStart - len sectionEnd < 20 \<Longrightarrow> 20 \<le> margin \<Longrightarrow>
   truncateBlock heading sectionStart margin text limit t = Inl SliceBoundsOutOfRange"
proof -
  assume small: "limit - len sectionStart - len sectionEnd < 20" and m: "20 \<le> margin"
  have "0 \<le> len text" by simp
  with small m have "len text > limit - len sectionStart - len sectionEnd - margin"
    by linarith
  moreover from small have "limit - len sectionStart - len sectionEnd - 30 < 0"
    by linarith
  ultimately show ?thesis
    by (simp add: truncateBlock_def Let_def slice_to_def)
qed

lemma payloadSection_small:
  "limit < 145 \<Longrightarrow> payloadSection lib req limit t = Inl SliceBoundsOutOfRange"
  by (simp add: payloadSection_def mapBlock_def truncateBlock_small split: option.splits)

lemma sections_small:
  "payloadLimit (allocate maxJiraDescLength (essentialLength lib req)) < 145 \<Longrightarrow>
   sections lib req = Inl SliceBoundsOutOfRange"
  by (auto simp: sections_def limitsOf_def Let_def payloadSection_small split: sum.splits
      dest: networkCallsSection_panic headerSection_panic responseSection_panic)

lemma payloadLimit_negative:
  "c < e \<Longrightarrow> payloadLimit (allocate c e) < 0"
proof -
  assume "c < e"
  then have neg: "e - c > 0" by simp
  have half: "(e - c) div 2 * 2 \<le> e - c" by simp
  have fifth: "(e - c) div 5 * 5 \<le> e - c" by simp
  have "payloadLimit (allocate c e) = - (e - c) + (e - c) div 2 + (e - c) div 5 + (e - c) div 5"
    using neg by (simp add: allocate_def remainingChars_def quo_def Let_def)
  with neg half fifth show ?thesis by linarith
qed

lemma essential_over_ceiling_panics:
  "maxJiraDescLength < essentialLength lib req \<Longrightarrow>
   remainingChars maxJiraDescLength (essentialLength lib req) < 0
   \<and> payloadLimit (allocate maxJiraDescLength (essentialLength lib req)) < 0
   \<and> assemble lib req = Inl SliceBoundsOutOfRange
   \<and> CreateTicket lib s w req = Inl SliceBoundsOutOfRange"
proof -
  assume over: "maxJiraDescLength < essentialLength lib req"
  then have p: "payloadLimit (allocate maxJiraDescLength (essentialLength lib req)) < 0"
    by (rule payloadLimit_negative)
  then have "sections lib req = Inl SliceBoundsOutOfRange"
    by (simp add: sections_small)
  then have "assemble lib req = Inl SliceBoundsOutOfRange"
    by (simp add: assemble_def preGuard_def)
  with over p show ?thesis
    by (simp add: CreateTicket_def remainingChars_def)
qed

lemma essentialLength_longIssue: "essentialLength sampleLib longIssueRequest = 32105"
  by (simp add: essentialLength_def essentialDescription_def issueSummary_def
      descriptionSection_def userInformation_def metadataSection_def metadataLine_def
      pageURLLine_def screenshot_def validImage_def timestamp_def sampleLib_def
      longIssueRequest_def index_def asString_def fmt_s_def len_Cons len_Nil)

text \<open>
  C4, at a report whose issue title is 32000 bytes long: the fixed part is 32105 bytes,
  the remaining space is -105 and is not clamped, the four limits are negative, and the
  run stops with a slice-bounds panic before any description exists.
\<close>

theorem long_issue_request_panics:
  "essentialLength sampleLib longIssueRequest = 32105
   \<and> remainingChars maxJiraDescLength (essentialLength sampleLib longIssueRequest) = - 105
   \<and> allocate maxJiraDescLength (essentialLength sampleLib longIssueRequest) =
       \<lparr>networkCallsLimit = - 52, headersLimit = - 21, responseLimit = - 21, payloadLimit = - 11\<rparr>
   \<and> assemble sampleLib longIssueRequest = Inl SliceBoundsOutOfRange
   \<and> CreateTicket sampleLib sampleService sampleWorld longIssueRequest
       = Inl SliceBoundsOutOfRange"
proof -
  have "maxJiraDescLength < essentialLength sampleLib longIssueRequest"
    by (simp add: essentialLength_longIssue maxJiraDescLength_def)
  from essential_over_ceiling_panics [OF this, of sampleService sampleWorld]
  show ?thesis
    by (simp add: essentialLength_longIssue allocate_def remainingChars_def quo_def Let_def
        maxJiraDescLength_def)
qed

subsection \<open>The network-call parser\<close>

text \<open>
  C10. An empty failed-network-calls field gives the empty list and no error, whatever
  the JSON library would say of the empty string: it is never asked.
\<close>

theorem GetNetworkCalls_empty_field:
  "GetNetworkCalls lib '''' = Inr ([], None)"
  by (simp add: GetNetworkCalls_def)

lemma TrimSpace_plain:
  "leadingSpace s = 0 \<Longrightarrow> trailingSpace s = 0 \<Longrightarrow> TrimSpace s = s"
  by (simp add: TrimSpace_def TrimLeft.simps [of s] TrimRight.simps [of s])

lemma TrimSpace_no_break_space:
  "TrimSpace ([CHR 0xC2, CHR 0xA0] @ '' []'' @ [CHR 0x0A, CHR 0xE2, CHR 0x80, CHR 0xA8]) = ''[]''"
  by (simp add: TrimSpace_def TrimLeft.simps TrimRight.simps leadingSpace_def
      trailingSpace_def spaces_def suffix_def Cons_eq_append_conv)

lemma TrimSpace_lone_quote: "TrimSpace [dquote] = [dquote]"
  by (rule TrimSpace_plain)
    (simp_all add: leadingSpace_def trailingSpace_def spaces_def suffix_def dquote_def)

lemma TrimSpace_doubledCalls: "TrimSpace doubledCalls = doubledCalls"
  by (rule TrimSpace_plain)
    (simp_all add: leadingSpace_def trailingSpace_def spaces_def suffix_def doubledCalls_def
      dquote_def bslash_def Cons_eq_append_conv)

lemma stripQuotes_lone_quote: "stripQuotes (TrimSpace [dquote]) = Inl SliceBoundsOutOfRange"
  unfolding TrimSpace_lone_quote
  by (simp add: stripQuotes_def dquote_def slice_def len_def)

lemma cleaned_doubledCalls:
  "stripQuotes (TrimSpace doubledCalls) = Inr (butlast (tl doubledCalls))
   \<and> unescape (butlast (tl doubledCalls)) = cleanedCalls"
  unfolding TrimSpace_doubledCalls
  by (simp add: stripQuotes_def unescape_def doubledCalls_def
      cleanedCalls_def dquote_def squote_def bslash_def slice_def len_def suffix_def)

lemma tableLib_answers:
  "UnmarshalCalls tableLib plainCalls calls = ([call500], None)
   \<and> UnmarshalCalls tableLib doubledCalls calls = (calls, Some ''json: cannot unmarshal'')
   \<and> UnmarshalCalls tableLib cleanedCalls calls = (calls, Some ''json: cannot unmarshal'')
   \<and> UnmarshalCalls tableLib [dquote] calls = (calls, Some ''json: cannot unmarshal'')
   \<and> UnmarshalString tableLib cleanedCalls = None"
  by (simp add: tableLib_def plainCalls_def doubledCalls_def cleanedCalls_def dquote_def
      bslash_def)

text \<open>
  C6, at two inputs. A field holding one double quote: unless the library accepts it as
  JSON, line 73 slices \<open>input[1:0]\<close> and the parser panics. A pretty-printed array
  encoded twice: the library is asked about the field as it came and about the cleaned
  text only, and the string decoder of the third attempt is given the cleaned text, whose
  outer quotes are gone. With the answers of encoding/json on these texts the plain array
  parses to its one call, its double encoding to no call and an error, and the one-quote
  field panics.
\<close>

theorem GetNetworkCalls_misses_inputs:
  "GetNetworkCalls lib [dquote] =
     (case UnmarshalCalls lib [dquote] [] of
        (calls, None) \<Rightarrow> Inr (calls, None)
      | (calls, Some err) \<Rightarrow> Inl SliceBoundsOutOfRange)
   \<and> GetNetworkCalls lib doubledCalls =
     (case UnmarshalCalls lib doubledCalls [] of
        (calls, None) \<Rightarrow> Inr (calls, None)
      | (calls, Some err) \<Rightarrow>
          (case UnmarshalCalls lib cleanedCalls calls of
             (calls, None) \<Rightarrow> Inr (calls, None)
           | (calls, Some err) \<Rightarrow>
               (case UnmarshalString lib cleanedCalls of
                  None \<Rightarrow> Inr (calls, Some CouldNotParseNetworkCalls)
                | Some decodedString \<Rightarrow>
                    (case UnmarshalCalls lib decodedString calls of
                       (calls, None) \<Rightarrow> Inr (calls, None)
                     | (calls, Some err) \<Rightarrow> Inr (calls, Some CouldNotParseNetworkCalls)))))
   \<and> GetNetworkCalls tableLib plainCalls = Inr ([call500], None)
   \<and> GetNetworkCalls tableLib doubledCalls = Inr ([], Some CouldNotParseNetworkCalls)
   \<and> GetNetworkCalls tableLib [dquote] = Inl SliceBoundsOutOfRange"
proof -
  have q: "[dquote] \<noteq> ''''" by simp
  have d: "doubledCalls \<noteq> ''''" by (simp add: doubledCalls_def)
  have p: "plainCalls \<noteq> ''''" by (simp add: plainCalls_def)
  have general: "GetNetworkCalls lib [dquote] =
     (case UnmarshalCalls lib [dquote] [] of
        (calls, None) \<Rightarrow> Inr (calls, None)
      | (calls, Some err) \<Rightarrow> Inl SliceBoundsOutOfRange)
   \<and> GetNetworkCalls lib doubledCalls =
     (case UnmarshalCalls lib doubledCalls [] of
        (calls, None) \<Rightarrow> Inr (calls, None)
      | (calls, Some err) \<Rightarrow>
          (case UnmarshalCalls lib cleanedCalls calls of
             (calls, None) \<Rightarrow> Inr (calls, None)
           | (calls, Some err) \<Rightarrow>
               (case UnmarshalString lib cleanedCalls of
                  None \<Rightarrow> Inr (calls, Some CouldNotParseNetworkCalls)
                | Some decodedString \<Rightarrow>
                    (case UnmarshalCalls lib decodedString calls of
                       (calls, None) \<Rightarrow> Inr (calls, None)
                     | (calls, Some err) \<Rightarrow> Inr (calls, Some CouldNotParseNetworkCalls)))))"
    for lib
    using q d
    by (simp add: GetNetworkCalls_def stripQuotes_lone_quote cleaned_doubledCalls Let_def
        split: prod.splits option.splits)
  have "GetNetworkCalls tableLib plainCalls = Inr ([call500], None)"
    using p by (simp add: GetNetworkCalls_def tableLib_answers)
  moreover have "GetNetworkCalls tableLib doubledCalls = Inr ([], Some CouldNotParseNetworkCalls)"
    using general [of tableLib] by (simp add: tableLib_answers)
  moreover have "GetNetworkCalls tableLib [dquote] = Inl SliceBoundsOutOfRange"
    using general [of tableLib] by (simp add: tableLib_answers)
  ultimately show ?thesis using general [of lib] by simp
qed

subsection \<open>Submission\<close>

lemma commentBody_total: "\<exists>body. commentBody t = Inr body"
  by (simp add: commentBody_def slice_to_def maxJiraDescLength_def)

lemma addTruncatedComment_calls:
  "addTruncatedComment w key t =
     Inr (if wasTruncated t then [AddCommentCall key (projr (commentBody t))] else [])"
proof -
  obtain body where "commentBody t = Inr body"
    using commentBody_total by blast
  then show ?thesis
    by (simp add: addTruncatedComment_def split: option.splits)
qed

lemma saveToMongo_calls:
  "saveToMongo lib s w req key assignee =
     (if mongoService s then [SaveTicketCall (flatten lib w req key assignee)] else [])"
  by (simp add: saveToMongo_def split: sum.splits)

lemma CreateTicket_unfolded:
  "assemble lib req = Inr (description, t) \<Longrightarrow>
   getRandomTeamMember (Intn w) (supportTeam s) = Inr assignee \<Longrightarrow>
   CreateTicket lib s w req =
     (case Create w (issueFields lib s w req description assignee) of
        Inl failure \<Rightarrow>
          Inr (Inl (createError failure),
               [GetCreateMetaCall (projectKey s),
                CreateCall (issueFields lib s w req description assignee)])
      | Inr key \<Rightarrow>
          Inr (Inr \<lparr>TicketID = key, Status = ''created'', AssignedTo = assignee,
                     JiraLink = jiraLink w key\<rparr>,
               [GetCreateMetaCall (projectKey s),
                CreateCall (issueFields lib s w req description assignee)]
               @ (if wasTruncated t then [AddCommentCall key (projr (commentBody t))] else [])
               @ saveToMongo lib s w req key assignee))"
  by (simp add: CreateTicket_def Let_def addTruncatedComment_calls split: sum.splits)

lemma CreateTicket_returns:
  "CreateTicket lib s w req = Inr (result, calls) \<Longrightarrow>
   \<exists>description t assignee.
     assemble lib req = Inr (description, t)
     \<and> getRandomTeamMember (Intn w) (supportTeam s) = Inr assignee"
  by (auto simp: CreateTicket_def split: sum.splits)

text \<open>
  C7. CreateTicket returns an error exactly when the call that creates the issue fails,
  and the error is the one built from that failure. Once the issue is created, the
  result is the response with the issue key, the status "created", the assignee and the
  link, whatever the comment call and the save to MongoDB answer.
\<close>

theorem CreateTicket_fails_only_on_create:
  "((\<exists>calls. CreateTicket lib s w req = Inr (Inl e, calls)) \<longleftrightarrow>
      (\<exists>description t assignee failure.
         assemble lib req = Inr (description, t)
         \<and> getRandomTeamMember (Intn w) (supportTeam s) = Inr assignee
         \<and> Create w (issueFields lib s w req description assignee) = Inl failure
         \<and> e = createError failure))
   \<and> (assemble lib req = Inr (description, t) \<longrightarrow>
        getRandomTeamMember (Intn w) (supportTeam s) = Inr assignee \<longrightarrow>
        Create w (issueFields lib s w req description assignee) = Inr key \<longrightarrow>
        (\<forall>comment save. \<exists>calls.
           CreateTicket lib s (w\<lparr>AddComment := comment, SaveTicket := save\<rparr>) req =
             Inr (Inr \<lparr>TicketID = key, Status = ''created'', AssignedTo = assignee,
                        JiraLink = jiraLink w key\<rparr>, calls)))"
proof (intro conjI impI allI)
  show "(\<exists>calls. CreateTicket lib s w req = Inr (Inl e, calls)) \<longleftrightarrow>
      (\<exists>description t assignee failure.
         assemble lib req = Inr (description, t)
         \<and> getRandomTeamMember (Intn w) (supportTeam s) = Inr assignee
         \<and> Create w (issueFields lib s w req description assignee) = Inl failure
         \<and> e = createError failure)"
  proof
    assume "\<exists>calls. CreateTicket lib s w req = Inr (Inl e, calls)"
    then obtain calls where r: "CreateTicket lib s w req = Inr (Inl e, calls)" by blast
    then obtain d t a where a: "assemble lib req = Inr (d, t)"
      and g: "getRandomTeamMember (Intn w) (supportTeam s) = Inr a"
      using CreateTicket_returns by blast
    from r CreateTicket_unfolded [OF a g]
    obtain failure where "Create w (issueFields lib s w req d a) = Inl failure"
      and "e = createError failure"
      by (cases "Create w (issueFields lib s w req d a)") auto
    with a g show "\<exists>description t assignee failure.
         assemble lib req = Inr (description, t)
         \<and> getRandomTeamMember (Intn w) (supportTeam s) = Inr assignee
         \<and> Create w (issueFields lib s w req description assignee) = Inl failure
         \<and> e = createError failure"
      by blast
  next
    assume "\<exists>description t assignee failure.
         assemble lib req = Inr (description, t)
         \<and> getRandomTeamMember (Intn w) (supportTeam s) = Inr assignee
         \<and> Create w (issueFields lib s w req description assignee) = Inl failure
         \<and> e = createError failure"
    then obtain d t a failure where a: "assemble lib req = Inr (d, t)"
      and g: "getRandomTeamMember (Intn w) (supportTeam s) = Inr a"
      and c: "Create w (issueFields lib s w req d a) = Inl failure"
      and e: "e = createError failure"
      by blast
    show "\<exists>calls. CreateTicket lib s w req = Inr (Inl e, calls)"
      using CreateTicket_unfolded [OF a g] c e by simp
  qed
next
  fix comment save
  let ?w = "w\<lparr>AddComment := comment, SaveTicket := save\<rparr>"
  assume a: "assemble lib req = Inr (description, t)"
    and g: "getRandomTeamMember (Intn w) (supportTeam s) = Inr assignee"
    and c: "Create w (issueFields lib s w req description assignee) = Inr key"
  have g': "getRandomTeamMember (Intn ?w) (supportTeam s) = Inr assignee"
    using g by simp
  have i: "issueFields lib s ?w req description assignee
             = issueFields lib s w req description assignee"
    by (simp add: issueFields_def)
  have j: "jiraLink ?w key = jiraLink w key"
    by (simp add: jiraLink_def)
  show "\<exists>calls. CreateTicket lib s ?w req =
             Inr (Inr \<lparr>TicketID = key, Status = ''created'', AssignedTo = assignee,
                        JiraLink = jiraLink w key\<rparr>, calls)"
    using CreateTicket_unfolded [OF a g'] c by (simp add: i j)
qed

lemma assemble_sample:
  "\<exists>d t. assemble sampleLib sampleRequest = Inr (d, t) \<and> wasTruncated t"
proof -
  obtain d0 t0 where pre: "preGuard sampleLib sampleRequest = Inr (d0, t0)"
    and long: "len d0 = 32086"
    using preGuard_sample by blast
  from long have "maxJiraDescLength < len d0"
    by (simp add: maxJiraDescLength_def)
  with pre show ?thesis
    by (simp add: assemble_def finalCheck_fires overflow_def)
qed

lemma assignee_sample:
  "getRandomTeamMember (Intn sampleWorld) (supportTeam sampleService) = Inr ''bob''"
  by (simp add: getRandomTeamMember_def sampleWorld_def sampleService_def)

theorem CreateTicket_fails_only_on_create_witness:
  "(\<exists>calls. CreateTicket sampleLib sampleService
        (sampleWorld\<lparr>Create := \<lambda>issue. Inl \<lparr>errText = ''unauthorized'',
                                               resp = Some (401, ''denied'')\<rparr>\<rparr>)
        sampleRequest
      = Inr (Inl (FailedToCreateJiraTicket 401 ''unauthorized'' ''denied''), calls))
   \<and> (\<exists>calls. CreateTicket sampleLib sampleService sampleWorld sampleRequest
      = Inr (Inr \<lparr>TicketID = ''SUP-1'', Status = ''created'', AssignedTo = ''bob'',
                 JiraLink = ''https://jira.example.com/browse/SUP-1''\<rparr>, calls))"
proof
  let ?w = "sampleWorld\<lparr>Create := \<lambda>issue. Inl \<lparr>errText = ''unauthorized'',
                                                 resp = Some (401, ''denied'')\<rparr>\<rparr>"
  obtain d t where a: "assemble sampleLib sampleRequest = Inr (d, t)"
    using assemble_sample by blast
  have g: "getRandomTeamMember (Intn ?w) (supportTeam sampleService) = Inr ''bob''"
    using assignee_sample by simp
  have "\<exists>description t assignee failure.
          assemble sampleLib sampleRequest = Inr (description, t)
          \<and> getRandomTeamMember (Intn ?w) (supportTeam sampleService) = Inr assignee
          \<and> Create ?w (issueFields sampleLib sampleService ?w sampleRequest description assignee)
              = Inl failure
          \<and> FailedToCreateJiraTicket 401 ''unauthorized'' ''denied'' = createError failure"
    using a g by (auto simp: createError_def)
  then show "\<exists>calls. CreateTicket sampleLib sampleService ?w sampleRequest
      = Inr (Inl (FailedToCreateJiraTicket 401 ''unauthorized'' ''denied''), calls)"
    using CreateTicket_fails_only_on_create
      [of sampleLib sampleService ?w sampleRequest
          "FailedToCreateJiraTicket 401 ''unauthorized'' ''denied''"]
    by blast
next
  obtain d t where a: "assemble sampleLib sampleRequest = Inr (d, t)"
    using assemble_sample by blast
  have c: "Create sampleWorld
             (issueFields sampleLib sampleService sampleWorld sampleRequest d ''bob'')
           = Inr ''SUP-1''"
    by (simp add: sampleWorld_def)
  have w: "sampleWorld\<lparr>AddComment := AddComment sampleWorld,
                        SaveTicket := SaveTicket sampleWorld\<rparr> = sampleWorld"
    by simp
  have j: "jiraLink sampleWorld ''SUP-1'' = ''https://jira.example.com/browse/SUP-1''"
    by (simp add: jiraLink_def sampleWorld_def)
  from CreateTicket_fails_only_on_create
      [of sampleLib sampleService sampleWorld sampleRequest _ d t "''bob''" "''SUP-1''"]
    a assignee_sample c
  have "\<forall>comment save. \<exists>calls.
          CreateTicket sampleLib sampleService
            (sampleWorld\<lparr>AddComment := comment, SaveTicket := save\<rparr>) sampleRequest
          = Inr (Inr \<lparr>TicketID = ''SUP-1'', Status = ''created'', AssignedTo = ''bob'',
                      JiraLink = jiraLink sampleWorld ''SUP-1''\<rparr>, calls)"
    by blast
  then have "\<exists>calls.
          CreateTicket sampleLib sampleService
            (sampleWorld\<lparr>AddComment := AddComment sampleWorld,
                          SaveTicket := SaveTicket sampleWorld\<rparr>) sampleRequest
          = Inr (Inr \<lparr>TicketID = ''SUP-1'', Status = ''created'', AssignedTo = ''bob'',
                      JiraLink = jiraLink sampleWorld ''SUP-1''\<rparr>, calls)"
    by blast
  then show "\<exists>calls. CreateTicket sampleLib sampleService sampleWorld sampleRequest
      = Inr (Inr \<lparr>TicketID = ''SUP-1'', Status = ''created'', AssignedTo = ''bob'',
                 JiraLink = ''https://jira.example.com/browse/SUP-1''\<rparr>, calls)"
    by (simp only: w j)
qed

subsection \<open>The flag follows the cuts\<close>

lemma wasTruncated_overflow [simp]: "wasTruncated (overflow heading fullContent t)"
  by (simp add: overflow_def)

lemma ncBody_flag:
  "ncBody nc limit t = Inr (content, t') \<Longrightarrow>
   wasTruncated t' = (wasTruncated t \<or> len nc > limit - len ncStart - len sectionEnd - 20)"
  by (auto simp: ncBody_def Let_def split: if_splits sum.splits)

lemma networkCallsSection_flag:
  "networkCallsSection lib req limit t = Inr (section, t') \<Longrightarrow>
   wasTruncated t' = (wasTruncated t \<or> ncCut lib req limit)"
  by (auto simp: networkCallsSection_def ncCut_def ncText_def
      split: option.splits if_splits sum.splits any.splits dest: ncBody_flag)

lemma truncateBlock_flag:
  "truncateBlock heading sectionStart margin text limit t = Inr (content, t') \<Longrightarrow>
   wasTruncated t' =
     (wasTruncated t \<or> len text > limit - len sectionStart - len sectionEnd - margin)"
  by (auto simp: truncateBlock_def Let_def split: if_splits sum.splits)

lemma headersLoop_flag:
  "headersLoop lim hs headersStr fullHeadersStr t = (out, t') \<Longrightarrow>
   wasTruncated t' = (wasTruncated t \<or> headersOverflow lim hs headersStr)"
proof (induction hs arbitrary: headersStr fullHeadersStr)
  case Nil
  then show ?case by simp
next
  case (Cons kv rest)
  obtain k v where kv: "kv = (k, v)" by (cases kv)
  show ?case
  proof (cases "len headersStr + len (k @ '': '' @ v @ ''\<newline>'') > lim")
    case True
    with Cons.prems kv show ?thesis by (auto simp: Let_def)
  next
    case False
    with Cons.prems kv
    have "headersLoop lim rest (headersStr @ k @ '': '' @ v @ ''\<newline>'')
            (fullHeadersStr @ k @ '': '' @ v @ ''\<newline>'') t = (out, t')"
      by (simp add: Let_def)
    from Cons.IH [OF this] False kv show ?thesis by (simp add: Let_def)
  qed
qed

lemma headerSection_flag:
  "headerSection lib req limit t = Inr (section, t') \<Longrightarrow>
   wasTruncated t' = (wasTruncated t \<or> headersCut lib req limit)"
  by (auto simp: headerSection_def headersCut_def
      split: option.splits if_splits sum.splits prod.splits
      dest: truncateBlock_flag headersLoop_flag)

lemma mapBlock_flag:
  "mapBlock lib heading sectionStart m limit t = Inr (section, t') \<Longrightarrow>
   wasTruncated t' = (wasTruncated t \<or> mapCut lib sectionStart m limit)"
  by (auto simp: mapBlock_def mapCut_def mapText_def split: option.splits sum.splits
      dest: truncateBlock_flag)

lemma responseSection_flag:
  "responseSection lib req limit t = Inr (section, t') \<Longrightarrow>
   wasTruncated t' = (wasTruncated t \<or> responseCut lib req limit)"
  by (auto simp: responseSection_def responseCut_def split: if_splits dest: mapBlock_flag)

lemma payloadSection_flag:
  "payloadSection lib req limit t = Inr (section, t') \<Longrightarrow>
   wasTruncated t' = (wasTruncated t \<or> payloadCut lib req limit)"
  by (auto simp: payloadSection_def payloadCut_def dest: mapBlock_flag)

lemma sections_flag:
  assumes "sections lib req = Inr (ncSection, hSection, rSection, pSection, t)"
  shows "wasTruncated t =
      (ncCut lib req (networkCallsLimit (allocate maxJiraDescLength (essentialLength lib req)))
       \<or> headersCut lib req (headersLimit (allocate maxJiraDescLength (essentialLength lib req)))
       \<or> responseCut lib req (responseLimit (allocate maxJiraDescLength (essentialLength lib req)))
       \<or> payloadCut lib req (payloadLimit (allocate maxJiraDescLength (essentialLength lib req))))"
proof -
  let ?lim = "allocate maxJiraDescLength (essentialLength lib req)"
  from assms obtain t1 t2 t3 where
    n: "networkCallsSection lib req (networkCallsLimit ?lim) trunc0 = Inr (ncSection, t1)" and
    h: "headerSection lib req (headersLimit ?lim) t1 = Inr (hSection, t2)" and
    r: "responseSection lib req (responseLimit ?lim) t2 = Inr (rSection, t3)" and
    p: "payloadSection lib req (payloadLimit ?lim) t3 = Inr (pSection, t)"
    by (auto simp: sections_def limitsOf_def Let_def split: sum.splits)
  have "\<not> wasTruncated trunc0" by (simp add: trunc0_def)
  with networkCallsSection_flag [OF n] headerSection_flag [OF h]
    responseSection_flag [OF r] payloadSection_flag [OF p]
  show ?thesis by blast
qed

lemma assemble_flag:
  assumes "assemble lib req = Inr (description, t)"
  shows "wasTruncated t = anyCut lib req"
proof -
  from assms obtain d0 t0 where pre: "preGuard lib req = Inr (d0, t0)"
    and fin: "finalCheck d0 t0 = Inr (description, t)"
    using assemble_preGuard by blast
  from pre obtain n h r p where "sections lib req = Inr (n, h, r, p, t0)"
    by (auto simp: preGuard_def split: sum.splits)
  note s = sections_flag [OF this]
  have w: "wholeCut lib req = (len d0 > maxJiraDescLength)"
    using pre by (simp add: wholeCut_def)
  have "wasTruncated t = (wasTruncated t0 \<or> len d0 > maxJiraDescLength)"
    using fin by (cases "len d0 > maxJiraDescLength")
      (auto simp: finalCheck_fires finalCheck_idle)
  with s w show ?thesis by (simp add: anyCut_def limitsOf_def Let_def)
qed

lemma essentialLength_plain: "essentialLength terseLib plainRequest = 145"
  by (simp add: essentialLength_def essentialDescription_def issueSummary_def
      descriptionSection_def userInformation_def metadataSection_def metadataLine_def
      pageURLLine_def screenshot_def validImage_def timestamp_def terseLib_def
      plainRequest_def index_def asString_def fmt_s_def len_def)

lemma sections_plain:
  "sections terseLib plainRequest =
     Inr ('''',
          headersStart @ ''No request headers available.\<newline>'' @ sectionEnd,
          responseStart @ ''No response data available.\<newline>'' @ sectionEnd,
          payloadStart @ ((''{code:json}\<newline>'' @ filler 40) @ ''\<newline>{code}\<newline>'') @ sectionEnd,
          trunc0)"
  unfolding sections_def limitsOf_def essentialLength_plain allocate_sample
  by (simp add: networkCallsSection_def headerSection_def responseSection_def
      payloadSection_def mapBlock_def truncateBlock_def terseLib_def plainRequest_def Let_def)

lemma preGuard_plain:
  "\<exists>d. preGuard terseLib plainRequest = Inr (d, trunc0) \<and> len d = 650"
proof -
  have e: "len (essentialDescription terseLib plainRequest) + len (timestamp terseLib) = 145"
    using essentialLength_plain by (simp add: essentialLength_def)
  show ?thesis
    unfolding preGuard_def sections_plain
    using e by (simp add: len_Cons len_Nil)
qed

lemma assemble_plain:
  "\<exists>d. assemble terseLib plainRequest = Inr (d, trunc0)"
proof -
  obtain d where pre: "preGuard terseLib plainRequest = Inr (d, trunc0)" and l: "len d = 650"
    using preGuard_plain by blast
  then show ?thesis
    by (simp add: assemble_def finalCheck_idle maxJiraDescLength_def)
qed

subsection \<open>What a cut section looks like\<close>

lemma ncBody_cut:
  "len nc > limit - len ncStart - len sectionEnd - 20 \<Longrightarrow>
   ncBody nc limit t = Inr (content, t') \<Longrightarrow>
   content = ''Network calls data truncated to fit Jira limit:\<newline>'' @ ''{code:json}\<newline>''
       @ take (nat (limit - len ncStart - len sectionEnd - 50)) nc
       @ ''\<newline>...[truncated]...\<newline>{code}\<newline>''
   \<and> t' = overflow ''h3. Complete Network Calls\<newline>''
          (''{code:json}\<newline>'' @ nc @ ''\<newline>{code}\<newline>'') t"
  by (auto simp: ncBody_def Let_def slice_to_Inr split: sum.splits)

lemma networkCallsSection_cut:
  assumes "ncText lib req = Some nc"
    and cond: "len nc > limit - len ncStart - len sectionEnd - 20"
    and "networkCallsSection lib req limit t = Inr (section, t')"
  shows "section = ncStart @ ''Network calls data truncated to fit Jira limit:\<newline>''
       @ ''{code:json}\<newline>'' @ take (nat (limit - len ncStart - len sectionEnd - 50)) nc
       @ ''\<newline>...[truncated]...\<newline>{code}\<newline>'' @ sectionEnd
   \<and> t' = overflow ''h3. Complete Network Calls\<newline>''
          (''{code:json}\<newline>'' @ nc @ ''\<newline>{code}\<newline>'') t"
proof -
  from assms obtain content where
    nb: "ncBody nc limit t = Inr (content, t')"
    and sec: "section = ncStart @ content @ sectionEnd"
    by (auto simp: networkCallsSection_def ncText_def
        split: option.splits if_splits sum.splits any.splits)
  from ncBody_cut [OF cond nb] sec show ?thesis by simp
qed

lemma truncateBlock_cut:
  "len text > limit - len sectionStart - len sectionEnd - margin \<Longrightarrow>
   truncateBlock heading sectionStart margin text limit t = Inr (content, t') \<Longrightarrow>
   content = ''{code:json}\<newline>''
       @ take (nat (limit - len sectionStart - len sectionEnd - 30)) text
       @ ''\<newline>...[truncated]...\<newline>''
   \<and> t' = overflow heading (''{code:json}\<newline>'' @ text @ ''\<newline>{code}\<newline>'') t"
  by (auto simp: truncateBlock_def Let_def slice_to_Inr split: sum.splits)

lemma headerSection_cut:
  assumes "length (RequestHeaders req) > 0"
    and "MarshalIndent lib (headersValue (RequestHeaders req)) = Some headersJSON"
    and cond: "len headersJSON > limit - len headersStart - len sectionEnd - 20"
    and "headerSection lib req limit t = Inr (section, t')"
  shows "section = headersStart @ ''{code:json}\<newline>''
       @ take (nat (limit - len headersStart - len sectionEnd - 30)) headersJSON
       @ ''\<newline>...[truncated]...\<newline>'' @ ''\<newline>{code}\<newline>'' @ sectionEnd
   \<and> t' = overflow ''h3. Complete Request Headers\<newline>''
          (''{code:json}\<newline>'' @ headersJSON @ ''\<newline>{code}\<newline>'') t"
proof -
  from assms obtain content where
    tb: "truncateBlock ''h3. Complete Request Headers\<newline>'' headersStart 20 headersJSON
           limit t = Inr (content, t')"
    and sec: "section = headersStart @ (content @ ''\<newline>{code}\<newline>'') @ sectionEnd"
    by (auto simp: headerSection_def split: sum.splits)
  from truncateBlock_cut [OF cond tb] sec show ?thesis by simp
qed

lemma mapBlock_cut:
  assumes mt: "mapText lib m = (text, margin)"
    and cond: "len text > limit - len sectionStart - len sectionEnd - margin"
    and "mapBlock lib heading sectionStart m limit t = Inr (section, t')"
  shows "section = sectionStart @ ''{code:json}\<newline>''
       @ take (nat (limit - len sectionStart - len sectionEnd - 30)) text
       @ ''\<newline>...[truncated]...\<newline>'' @ ''\<newline>{code}\<newline>'' @ sectionEnd
   \<and> t' = overflow heading (''{code:json}\<newline>'' @ text @ ''\<newline>{code}\<newline>'') t"
proof -
  from assms obtain content where
    tb: "truncateBlock heading sectionStart margin text limit t = Inr (content, t')"
    and sec: "section = sectionStart @ (content @ ''\<newline>{code}\<newline>'') @ sectionEnd"
    by (auto simp: mapBlock_def mapText_def split: option.splits sum.splits)
  from truncateBlock_cut [OF cond tb] sec show ?thesis by simp
qed

subsection \<open>The builder only grows\<close>

lemma overflow_grows: "prefix (truncatedContent t) (truncatedContent (overflow heading full t))"
  by (simp add: overflow_def)

lemma overflow_holds:
  "sublist (heading @ full @ ''\<newline>\<newline>'') (truncatedContent (overflow heading full t))"
  by (simp add: overflow_def)

lemma ncBody_grows:
  "ncBody nc limit t = Inr (content, t') \<Longrightarrow> prefix (truncatedContent t) (truncatedContent t')"
  by (auto simp: ncBody_def Let_def overflow_def split: if_splits sum.splits)

lemma networkCallsSection_grows:
  "networkCallsSection lib req limit t = Inr (section, t') \<Longrightarrow>
   prefix (truncatedContent t) (truncatedContent t')"
  by (auto simp: networkCallsSection_def
      split: option.splits if_splits sum.splits any.splits dest: ncBody_grows)

lemma truncateBlock_grows:
  "truncateBlock heading sectionStart margin text limit t = Inr (content, t') \<Longrightarrow>
   prefix (truncatedContent t) (truncatedContent t')"
  by (auto simp: truncateBlock_def Let_def overflow_def split: if_splits sum.splits)

lemma headersLoop_grows:
  "headersLoop lim hs headersStr fullHeadersStr t = (out, t') \<Longrightarrow>
   prefix (truncatedContent t) (truncatedContent t')"
proof (induction hs arbitrary: headersStr fullHeadersStr)
  case Nil
  then show ?case by simp
next
  case (Cons kv rest)
  obtain k v where kv: "kv = (k, v)" by (cases kv)
  show ?case
  proof (cases "len headersStr + len (k @ '': '' @ v @ ''\<newline>'') > lim")
    case True
    with Cons.prems kv show ?thesis by (auto simp: Let_def)
  next
    case False
    with Cons.prems kv
    have "headersLoop lim rest (headersStr @ k @ '': '' @ v @ ''\<newline>'')
            (fullHeadersStr @ k @ '': '' @ v @ ''\<newline>'') t = (out, t')"
      by (simp add: Let_def)
    from Cons.IH [OF this] show ?thesis .
  qed
qed

lemma headerSection_grows:
  "headerSection lib req limit t = Inr (section, t') \<Longrightarrow>
   prefix (truncatedContent t) (truncatedContent t')"
  by (auto simp: headerSection_def split: option.splits if_splits sum.splits prod.splits
      dest: truncateBlock_grows headersLoop_grows)

lemma mapBlock_grows:
  "mapBlock lib heading sectionStart m limit t = Inr (section, t') \<Longrightarrow>
   prefix (truncatedContent t) (truncatedContent t')"
  by (auto simp: mapBlock_def split: option.splits sum.splits dest: truncateBlock_grows)

lemma responseSection_grows:
  "responseSection lib req limit t = Inr (section, t') \<Longrightarrow>
   prefix (truncatedContent t) (truncatedContent t')"
  by (auto simp: responseSection_def split: if_splits dest: mapBlock_grows)

lemma payloadSection_grows:
  "payloadSection lib req limit t = Inr (section, t') \<Longrightarrow>
   prefix (truncatedContent t) (truncatedContent t')"
  by (auto simp: payloadSection_def dest: mapBlock_grows)

lemma finalCheck_grows:
  "finalCheck d t = Inr (d', t') \<Longrightarrow> prefix (truncatedContent t) (truncatedContent t')"
  by (cases "maxJiraDescLength < len d") (auto simp: finalCheck_fires finalCheck_idle overflow_def)

lemma sublist_prefix: "sublist xs ys \<Longrightarrow> prefix ys zs \<Longrightarrow> sublist xs zs"
  by (meson prefix_imp_sublist sublist_order.order.trans)
lemma sections_steps:
  assumes "sections lib req = Inr (ncSection, hSection, rSection, pSection, t)"
  obtains t1 t2 t3 where
    "networkCallsSection lib req (networkCallsLimit (limitsOf lib req)) trunc0
       = Inr (ncSection, t1)"
    "headerSection lib req (headersLimit (limitsOf lib req)) t1 = Inr (hSection, t2)"
    "responseSection lib req (responseLimit (limitsOf lib req)) t2 = Inr (rSection, t3)"
    "payloadSection lib req (payloadLimit (limitsOf lib req)) t3 = Inr (pSection, t)"
  using assms by (auto simp: sections_def limitsOf_def Let_def split: sum.splits)

text \<open>
  What the code does when the four sections are rendered without a panic. A section
  whose text is longer than its limit less the two wrappers and 20 (30 for a response or
  payload printed with \<open>%v\<close>) is, in the description as it stands before the final
  check, its opening wrapper, for the network calls the line "Network calls data
  truncated to fit Jira limit:", the code fence, the first bytes of the text up to the
  limit less the wrappers and 50 (network calls) or 30 (headers, response, payload), the
  marker line, the closing fence and the closing wrapper; and the overflow builder, up
  to the end of the assembly, holds the heading "h3. Complete Network Calls",
  "h3. Complete Request Headers", "h3. Complete Response" or "h3. Complete Payload"
  followed by the whole text in a code fence. For the headers this is the case where
  MarshalIndent succeeds.
\<close>

lemma cut_sections_recorded:
  assumes "sections lib req = Inr (ncSection, hSection, rSection, pSection, t)"
  shows
   "(\<forall>nc. ncText lib req = Some nc \<longrightarrow>
       len nc > networkCallsLimit (limitsOf lib req) - len ncStart - len sectionEnd - 20 \<longrightarrow>
       ncSection = ncStart @ ''Network calls data truncated to fit Jira limit:\<newline>''
           @ ''{code:json}\<newline>''
           @ take (nat (networkCallsLimit (limitsOf lib req) - len ncStart - len sectionEnd - 50)) nc
           @ ''\<newline>...[truncated]...\<newline>{code}\<newline>'' @ sectionEnd
       \<and> sublist (''h3. Complete Network Calls\<newline>'' @ ''{code:json}\<newline>'' @ nc
                    @ ''\<newline>{code}\<newline>'' @ ''\<newline>\<newline>'') (truncatedContent t))
    \<and> (\<forall>headersJSON. length (RequestHeaders req) > 0 \<longrightarrow>
       MarshalIndent lib (headersValue (RequestHeaders req)) = Some headersJSON \<longrightarrow>
       len headersJSON > headersLimit (limitsOf lib req) - len headersStart - len sectionEnd - 20 \<longrightarrow>
       hSection = headersStart @ ''{code:json}\<newline>''
           @ take (nat (headersLimit (limitsOf lib req) - len headersStart - len sectionEnd - 30))
               headersJSON
           @ ''\<newline>...[truncated]...\<newline>'' @ ''\<newline>{code}\<newline>'' @ sectionEnd
       \<and> sublist (''h3. Complete Request Headers\<newline>'' @ ''{code:json}\<newline>'' @ headersJSON
                    @ ''\<newline>{code}\<newline>'' @ ''\<newline>\<newline>'') (truncatedContent t))
    \<and> (\<forall>text margin. length (Response req) > 0 \<longrightarrow>
       mapText lib (Response req) = (text, margin) \<longrightarrow>
       len text > responseLimit (limitsOf lib req) - len responseStart - len sectionEnd - margin \<longrightarrow>
       rSection = responseStart @ ''{code:json}\<newline>''
           @ take (nat (responseLimit (limitsOf lib req) - len responseStart - len sectionEnd - 30))
               text
           @ ''\<newline>...[truncated]...\<newline>'' @ ''\<newline>{code}\<newline>'' @ sectionEnd
       \<and> sublist (''h3. Complete Response\<newline>'' @ ''{code:json}\<newline>'' @ text
                    @ ''\<newline>{code}\<newline>'' @ ''\<newline>\<newline>'') (truncatedContent t))
    \<and> (\<forall>text margin. mapText lib (Payload req) = (text, margin) \<longrightarrow>
       len text > payloadLimit (limitsOf lib req) - len payloadStart - len sectionEnd - margin \<longrightarrow>
       pSection = payloadStart @ ''{code:json}\<newline>''
           @ take (nat (payloadLimit (limitsOf lib req) - len payloadStart - len sectionEnd - 30))
               text
           @ ''\<newline>...[truncated]...\<newline>'' @ ''\<newline>{code}\<newline>'' @ sectionEnd
       \<and> sublist (''h3. Complete Payload\<newline>'' @ ''{code:json}\<newline>'' @ text
                    @ ''\<newline>{code}\<newline>'' @ ''\<newline>\<newline>'') (truncatedContent t))
    \<and> preGuard lib req =
         Inr (essentialDescription lib req @ timestamp lib @ ncSection
                @ ''h3. Technical Details\<newline>\<newline>'' @ hSection @ rSection @ pSection, t)
    \<and> (\<forall>description t'. assemble lib req = Inr (description, t') \<longrightarrow>
         prefix (truncatedContent t) (truncatedContent t'))"
proof -
  from assms obtain t1 t2 t3 where
    n: "networkCallsSection lib req (networkCallsLimit (limitsOf lib req)) trunc0
          = Inr (ncSection, t1)" and
    h: "headerSection lib req (headersLimit (limitsOf lib req)) t1 = Inr (hSection, t2)" and
    r: "responseSection lib req (responseLimit (limitsOf lib req)) t2 = Inr (rSection, t3)" and
    p: "payloadSection lib req (payloadLimit (limitsOf lib req)) t3 = Inr (pSection, t)"
    by (rule sections_steps)
  note g1 = headerSection_grows [OF h]
  note g2 = responseSection_grows [OF r]
  note g3 = payloadSection_grows [OF p]
  have nc: "ncSection = ncStart @ ''Network calls data truncated to fit Jira limit:\<newline>''
           @ ''{code:json}\<newline>''
           @ take (nat (networkCallsLimit (limitsOf lib req) - len ncStart - len sectionEnd - 50)) nc
           @ ''\<newline>...[truncated]...\<newline>{code}\<newline>'' @ sectionEnd
       \<and> sublist (''h3. Complete Network Calls\<newline>'' @ ''{code:json}\<newline>'' @ nc
                    @ ''\<newline>{code}\<newline>'' @ ''\<newline>\<newline>'') (truncatedContent t)"
    if "ncText lib req = Some nc"
      and "len nc > networkCallsLimit (limitsOf lib req) - len ncStart - len sectionEnd - 20"
    for nc
  proof -
    from networkCallsSection_cut [OF that n]
    have s: "ncSection = ncStart @ ''Network calls data truncated to fit Jira limit:\<newline>''
           @ ''{code:json}\<newline>''
           @ take (nat (networkCallsLimit (limitsOf lib req) - len ncStart - len sectionEnd - 50)) nc
           @ ''\<newline>...[truncated]...\<newline>{code}\<newline>'' @ sectionEnd"
      and t1: "t1 = overflow ''h3. Complete Network Calls\<newline>''
          (''{code:json}\<newline>'' @ nc @ ''\<newline>{code}\<newline>'') trunc0"
      by simp_all
    have "sublist (''h3. Complete Network Calls\<newline>''
            @ (''{code:json}\<newline>'' @ nc @ ''\<newline>{code}\<newline>'') @ ''\<newline>\<newline>'')
            (truncatedContent t1)"
      unfolding t1 by (rule overflow_holds)
    then have "sublist (''h3. Complete Network Calls\<newline>''
            @ (''{code:json}\<newline>'' @ nc @ ''\<newline>{code}\<newline>'') @ ''\<newline>\<newline>'')
            (truncatedContent t)"
      using g1 g2 g3 by (blast intro: sublist_prefix)
    with s show ?thesis by simp
  qed
  have hd: "hSection = headersStart @ ''{code:json}\<newline>''
           @ take (nat (headersLimit (limitsOf lib req) - len headersStart - len sectionEnd - 30))
               headersJSON
           @ ''\<newline>...[truncated]...\<newline>'' @ ''\<newline>{code}\<newline>'' @ sectionEnd
       \<and> sublist (''h3. Complete Request Headers\<newline>'' @ ''{code:json}\<newline>'' @ headersJSON
                    @ ''\<newline>{code}\<newline>'' @ ''\<newline>\<newline>'') (truncatedContent t)"
    if "length (RequestHeaders req) > 0"
      and "MarshalIndent lib (headersValue (RequestHeaders req)) = Some headersJSON"
      and "len headersJSON > headersLimit (limitsOf lib req) - len headersStart - len sectionEnd - 20"
    for headersJSON
  proof -
    from headerSection_cut [OF that h]
    have s: "hSection = headersStart @ ''{code:json}\<newline>''
           @ take (nat (headersLimit (limitsOf lib req) - len headersStart - len sectionEnd - 30))
               headersJSON
           @ ''\<newline>...[truncated]...\<newline>'' @ ''\<newline>{code}\<newline>'' @ sectionEnd"
      and t2: "t2 = overflow ''h3. Complete Request Headers\<newline>''
          (''{code:json}\<newline>'' @ headersJSON @ ''\<newline>{code}\<newline>'') t1"
      by simp_all
    have "sublist (''h3. Complete Request Headers\<newline>''
            @ (''{code:json}\<newline>'' @ headersJSON @ ''\<newline>{code}\<newline>'') @ ''\<newline>\<newline>'')
            (truncatedContent t2)"
      unfolding t2 by (rule overflow_holds)
    then have "sublist (''h3. Complete Request Headers\<newline>''
            @ (''{code:json}\<newline>'' @ headersJSON @ ''\<newline>{code}\<newline>'') @ ''\<newline>\<newline>'')
            (truncatedContent t)"
      using g2 g3 by (blast intro: sublist_prefix)
    with s show ?thesis by simp
  qed
  have rs: "rSection = responseStart @ ''{code:json}\<newline>''
           @ take (nat (responseLimit (limitsOf lib req) - len responseStart - len sectionEnd - 30))
               rendered
           @ ''\<newline>...[truncated]...\<newline>'' @ ''\<newline>{code}\<newline>'' @ sectionEnd
       \<and> sublist (''h3. Complete Response\<newline>'' @ ''{code:json}\<newline>'' @ rendered
                    @ ''\<newline>{code}\<newline>'' @ ''\<newline>\<newline>'') (truncatedContent t)"
    if nonempty: "length (Response req) > 0"
      and mt: "mapText lib (Response req) = (rendered, margin)"
      and c: "len rendered > responseLimit (limitsOf lib req) - len responseStart - len sectionEnd - margin"
    for rendered margin
  proof -
    from r nonempty
    have "mapBlock lib ''h3. Complete Response\<newline>'' responseStart (Response req)
            (responseLimit (limitsOf lib req)) t2 = Inr (rSection, t3)"
      by (simp add: responseSection_def)
    from mapBlock_cut [OF mt c this]
    have s: "rSection = responseStart @ ''{code:json}\<newline>''
           @ take (nat (responseLimit (limitsOf lib req) - len responseStart - len sectionEnd - 30))
               rendered
           @ ''\<newline>...[truncated]...\<newline>'' @ ''\<newline>{code}\<newline>'' @ sectionEnd"
      and t3: "t3 = overflow ''h3. Complete Response\<newline>''
          (''{code:json}\<newline>'' @ rendered @ ''\<newline>{code}\<newline>'') t2"
      by simp_all
    have "sublist (''h3. Complete Response\<newline>''
            @ (''{code:json}\<newline>'' @ rendered @ ''\<newline>{code}\<newline>'') @ ''\<newline>\<newline>'')
            (truncatedContent t3)"
      unfolding t3 by (rule overflow_holds)
    then have "sublist (''h3. Complete Response\<newline>''
            @ (''{code:json}\<newline>'' @ rendered @ ''\<newline>{code}\<newline>'') @ ''\<newline>\<newline>'')
            (truncatedContent t)"
      using g3 by (blast intro: sublist_prefix)
    with s show ?thesis by simp
  qed
  have ps: "pSection = payloadStart @ ''{code:json}\<newline>''
           @ take (nat (payloadLimit (limitsOf lib req) - len payloadStart - len sectionEnd - 30))
               rendered
           @ ''\<newline>...[truncated]...\<newline>'' @ ''\<newline>{code}\<newline>'' @ sectionEnd
       \<and> sublist (''h3. Complete Payload\<newline>'' @ ''{code:json}\<newline>'' @ rendered
                    @ ''\<newline>{code}\<newline>'' @ ''\<newline>\<newline>'') (truncatedContent t)"
    if mt: "mapText lib (Payload req) = (rendered, margin)"
      and c: "len rendered > payloadLimit (limitsOf lib req) - len payloadStart - len sectionEnd - margin"
    for rendered margin
  proof -
    from p
    have "mapBlock lib ''h3. Complete Payload\<newline>'' payloadStart (Payload req)
            (payloadLimit (limitsOf lib req)) t3 = Inr (pSection, t)"
      by (simp add: payloadSection_def)
    from mapBlock_cut [OF mt c this]
    have s: "pSection = payloadStart @ ''{code:json}\<newline>''
           @ take (nat (payloadLimit (limitsOf lib req) - len payloadStart - len sectionEnd - 30))
               rendered
           @ ''\<newline>...[truncated]...\<newline>'' @ ''\<newline>{code}\<newline>'' @ sectionEnd"
      and t: "t = overflow ''h3. Complete Payload\<newline>''
          (''{code:json}\<newline>'' @ rendered @ ''\<newline>{code}\<newline>'') t3"
      by simp_all
    have "sublist (''h3. Complete Payload\<newline>''
            @ (''{code:json}\<newline>'' @ rendered @ ''\<newline>{code}\<newline>'') @ ''\<newline>\<newline>'')
            (truncatedContent t)"
      by (subst t) (rule overflow_holds)
    with s show ?thesis by simp
  qed
  have pre: "preGuard lib req =
         Inr (essentialDescription lib req @ timestamp lib @ ncSection
                @ ''h3. Technical Details\<newline>\<newline>'' @ hSection @ rSection @ pSection, t)"
    using assms by (simp add: preGuard_def)
  have fin: "prefix (truncatedContent t) (truncatedContent t')"
    if "assemble lib req = Inr (description, t')" for description t'
    using that pre by (auto simp: assemble_def dest: finalCheck_grows)
  from nc hd rs ps pre fin show ?thesis by blast
qed
subsection \<open>The ceiling\<close>

text \<open>
  C1. For every ticket request, the description CreateTicket has assembled once the
  final check of lines 317 to 326 has run is at most 32000 bytes long, and so is the
  description of every issue CreateTicket sends to Jira.
\<close>

theorem description_within_ceiling:
  "(assemble lib req = Inr (description, t) \<longrightarrow> len description \<le> maxJiraDescLength)
   \<and> (CreateTicket lib s w req = Inr (result, calls) \<longrightarrow> CreateCall issue \<in> set calls \<longrightarrow>
        len (Description issue) \<le> maxJiraDescLength)"
proof (intro conjI impI)
  assume "assemble lib req = Inr (description, t)"
  then show "len description \<le> maxJiraDescLength" by (rule assemble_len)
next
  assume r: "CreateTicket lib s w req = Inr (result, calls)"
    and c: "CreateCall issue \<in> set calls"
  from r obtain d t0 a where a: "assemble lib req = Inr (d, t0)"
    and g: "getRandomTeamMember (Intn w) (supportTeam s) = Inr a"
    using CreateTicket_returns by blast
  from r c CreateTicket_unfolded [OF a g] have "issue = issueFields lib s w req d a"
    by (cases "Create w (issueFields lib s w req d a)")
      (auto simp: saveToMongo_calls split: if_splits)
  then have "Description issue = d" by (simp add: issueFields_def)
  with assemble_len [OF a] show "len (Description issue) \<le> maxJiraDescLength" by simp
qed

theorem description_within_ceiling_witness:
  "(\<exists>d t. assemble sampleLib sampleRequest = Inr (d, t) \<and> len d \<le> maxJiraDescLength)
   \<and> (\<exists>result calls issue.
        CreateTicket sampleLib sampleService sampleWorld sampleRequest = Inr (result, calls)
        \<and> CreateCall issue \<in> set calls \<and> len (Description issue) \<le> maxJiraDescLength)"
proof -
  obtain d t where a: "assemble sampleLib sampleRequest = Inr (d, t)"
    using assemble_sample by blast
  have c: "Create sampleWorld (issueFields sampleLib sampleService sampleWorld sampleRequest d
             ''bob'') = Inr ''SUP-1''"
    by (simp add: sampleWorld_def)
  from CreateTicket_unfolded [OF a assignee_sample] c
  obtain result calls where
    r: "CreateTicket sampleLib sampleService sampleWorld sampleRequest = Inr (result, calls)"
    and m: "CreateCall (issueFields sampleLib sampleService sampleWorld sampleRequest d ''bob'')
              \<in> set calls"
    by simp
  from description_within_ceiling
    [of sampleLib sampleRequest d t sampleService sampleWorld result calls
        "issueFields sampleLib sampleService sampleWorld sampleRequest d ''bob''"]
    a r m
  show ?thesis by blast
qed

subsection \<open>A fixed part close to the ceiling\<close>

lemma essentialLength_nearCeiling:
  "essentialLength (lib\<lparr>Now := sampleClock\<rparr>) nearCeilingRequest = 30605"
  by (simp add: essentialLength_def essentialDescription_def issueSummary_def
      descriptionSection_def userInformation_def metadataSection_def metadataLine_def
      pageURLLine_def screenshot_def validImage_def timestamp_def sampleClock_def
      nearCeilingRequest_def index_def asString_def fmt_s_def len_Cons len_Nil)

lemma limitsOf_nearCeiling:
  "limitsOf (lib\<lparr>Now := sampleClock\<rparr>) nearCeilingRequest =
     \<lparr>networkCallsLimit = 697, headersLimit = 279, responseLimit = 279, payloadLimit = 140\<rparr>"
  by (simp add: limitsOf_def essentialLength_nearCeiling allocate_def remainingChars_def
      quo_def Let_def maxJiraDescLength_def)

lemma mapCut_small:
  "limit - len sectionStart - len sectionEnd < 20 \<Longrightarrow> mapCut lib sectionStart m limit"
proof -
  assume small: "limit - len sectionStart - len sectionEnd < 20"
  obtain rendered margin where mt: "mapText lib m = (rendered, margin)"
    by (cases "mapText lib m")
  then have "20 \<le> margin"
    by (auto simp: mapText_def split: option.splits)
  moreover have "0 \<le> len rendered" by simp
  ultimately have "len rendered > limit - len sectionStart - len sectionEnd - margin"
    using small by linarith
  with mt show ?thesis by (simp add: mapCut_def)
qed

text \<open>
  C3, at a report whose fixed part is 30605 bytes, under the ceiling, whatever the JSON
  library answers: the payload's allocation is 140 bytes, 15 once the two wrappers are
  taken off, and the payload text is longer than that (the condition of line 287 holds;
  with \<open>sampleLib\<close> the text is 7000 bytes). No cut section with its marker and no
  overflow block come out: the cut point \<open>payloadLimit - 116 - 9 - 30\<close> is -15 and
  the run panics on the slice, in the sections, in the assembly and in CreateTicket.
\<close>

theorem near_ceiling_request_panics:
  "essentialLength (lib\<lparr>Now := sampleClock\<rparr>) nearCeilingRequest = 30605
   \<and> essentialLength (lib\<lparr>Now := sampleClock\<rparr>) nearCeilingRequest < maxJiraDescLength
   \<and> payloadLimit (limitsOf (lib\<lparr>Now := sampleClock\<rparr>) nearCeilingRequest) = 140
   \<and> payloadLimit (limitsOf (lib\<lparr>Now := sampleClock\<rparr>) nearCeilingRequest)
        - len payloadStart - len sectionEnd = 15
   \<and> payloadLimit (limitsOf (lib\<lparr>Now := sampleClock\<rparr>) nearCeilingRequest)
        - len payloadStart - len sectionEnd - 30 = - 15
   \<and> payloadCut (lib\<lparr>Now := sampleClock\<rparr>) nearCeilingRequest
        (payloadLimit (limitsOf (lib\<lparr>Now := sampleClock\<rparr>) nearCeilingRequest))
   \<and> mapText sampleLib (Payload nearCeilingRequest) = (filler 7000, 20)
   \<and> sections (lib\<lparr>Now := sampleClock\<rparr>) nearCeilingRequest = Inl SliceBoundsOutOfRange
   \<and> assemble (lib\<lparr>Now := sampleClock\<rparr>) nearCeilingRequest = Inl SliceBoundsOutOfRange
   \<and> CreateTicket (lib\<lparr>Now := sampleClock\<rparr>) s w nearCeilingRequest
        = Inl SliceBoundsOutOfRange"
proof -
  let ?lib = "lib\<lparr>Now := sampleClock\<rparr>"
  have p: "payloadLimit (limitsOf ?lib nearCeilingRequest) = 140"
    by (simp add: limitsOf_nearCeiling)
  have cut: "payloadCut ?lib nearCeilingRequest 140"
    unfolding payloadCut_def by (rule mapCut_small) simp
  have "payloadLimit (allocate maxJiraDescLength (essentialLength ?lib nearCeilingRequest)) < 145"
    using p by (simp add: limitsOf_def)
  then have s: "sections ?lib nearCeilingRequest = Inl SliceBoundsOutOfRange"
    by (rule sections_small)
  then have a: "assemble ?lib nearCeilingRequest = Inl SliceBoundsOutOfRange"
    by (simp add: assemble_def preGuard_def)
  then have c: "CreateTicket ?lib s w nearCeilingRequest = Inl SliceBoundsOutOfRange"
    by (simp add: CreateTicket_def)
  have m: "mapText sampleLib (Payload nearCeilingRequest) = (filler 7000, 20)"
    by (simp add: mapText_def sampleLib_def)
  from p cut s a c m show ?thesis
    by (simp add: essentialLength_nearCeiling maxJiraDescLength_def)
qed

subsection \<open>The comment\<close>

lemma commentBody_eq:
  "commentBody t =
     Inr (if len (truncatedContent t) > maxJiraDescLength
          then take (nat (maxJiraDescLength - 100)) (truncatedContent t) @ commentNotice
          else truncatedContent t)"
  by (simp add: commentBody_def slice_to_def maxJiraDescLength_def)

lemma prefix_chain: "prefix xs ys \<Longrightarrow> prefix ys zs \<Longrightarrow> prefix xs zs"
  by (auto simp: prefix_def)

lemma sections_grows:
  assumes "sections lib req = Inr (ncSection, hSection, rSection, pSection, t)"
  shows "prefix (truncatedContent trunc0) (truncatedContent t)"
proof -
  from assms obtain t1 t2 t3 where
    n: "networkCallsSection lib req (networkCallsLimit (limitsOf lib req)) trunc0
          = Inr (ncSection, t1)" and
    h: "headerSection lib req (headersLimit (limitsOf lib req)) t1 = Inr (hSection, t2)" and
    r: "responseSection lib req (responseLimit (limitsOf lib req)) t2 = Inr (rSection, t3)" and
    p: "payloadSection lib req (payloadLimit (limitsOf lib req)) t3 = Inr (pSection, t)"
    by (rule sections_steps)
  from networkCallsSection_grows [OF n] headerSection_grows [OF h]
    responseSection_grows [OF r] payloadSection_grows [OF p]
  show ?thesis by (blast intro: prefix_chain)
qed

lemma assemble_grows:
  assumes "assemble lib req = Inr (description, t)"
  shows "prefix (truncatedContent trunc0) (truncatedContent t)"
proof -
  from assms obtain d0 t0 where pre: "preGuard lib req = Inr (d0, t0)"
    and fin: "finalCheck d0 t0 = Inr (description, t)"
    using assemble_preGuard by blast
  from pre obtain n h r p where "sections lib req = Inr (n, h, r, p, t0)"
    by (auto simp: preGuard_def split: sum.splits)
  from sections_grows [OF this] finalCheck_grows [OF fin]
  show ?thesis by (blast intro: prefix_chain)
qed

lemma filter_saveToMongo: "filter isAddComment (saveToMongo lib s w req key assignee) = []"
  by (simp add: saveToMongo_calls)

text \<open>
  C8. Once the ticket is created, the calls of CreateTicket hold an AddComment call if
  and only if a cut was made while the description was assembled (in the network calls,
  the headers, the response or the payload section, or of the whole description by the
  final check). There is then exactly one: on the key of the created ticket, with the
  overflow builder as its body (cut to 32000 - 100 bytes and a notice when it is longer
  than 32000), and the builder begins with its fixed first line. With no cut there is
  no AddComment call.
\<close>

theorem comment_iff_truncated:
  "CreateTicket lib s w req = Inr (Inr response, calls) \<Longrightarrow>
   \<exists>description t.
     assemble lib req = Inr (description, t)
     \<and> prefix ''Additional details that couldn't fit in the description:\<newline>\<newline>''
          (truncatedContent t)
     \<and> filter isAddComment calls =
         (if anyCut lib req
          then [AddCommentCall (TicketID response)
                  (if len (truncatedContent t) > maxJiraDescLength
                   then take (nat (maxJiraDescLength - 100)) (truncatedContent t) @ commentNotice
                   else truncatedContent t)]
          else [])"
proof -
  assume r: "CreateTicket lib s w req = Inr (Inr response, calls)"
  then obtain d t a where a: "assemble lib req = Inr (d, t)"
    and g: "getRandomTeamMember (Intn w) (supportTeam s) = Inr a"
    using CreateTicket_returns by blast
  from r CreateTicket_unfolded [OF a g]
  obtain key where
    resp: "response = \<lparr>TicketID = key, Status = ''created'', AssignedTo = a,
                         JiraLink = jiraLink w key\<rparr>" and
    calls: "calls = [GetCreateMetaCall (projectKey s),
                     CreateCall (issueFields lib s w req d a)]
               @ (if wasTruncated t then [AddCommentCall key (projr (commentBody t))] else [])
               @ saveToMongo lib s w req key a"
    by (cases "Create w (issueFields lib s w req d a)") auto
  have key: "TicketID response = key" by (simp add: resp)
  have "filter isAddComment calls =
          (if wasTruncated t then [AddCommentCall key (projr (commentBody t))] else [])"
    unfolding calls by (simp add: filter_saveToMongo)
  then have f: "filter isAddComment calls =
         (if anyCut lib req
          then [AddCommentCall (TicketID response)
                  (if len (truncatedContent t) > maxJiraDescLength
                   then take (nat (maxJiraDescLength - 100)) (truncatedContent t) @ commentNotice
                   else truncatedContent t)]
          else [])"
    using assemble_flag [OF a] by (simp add: key commentBody_eq)
  have "prefix ''Additional details that couldn't fit in the description:\<newline>\<newline>''
          (truncatedContent t)"
    using assemble_grows [OF a] by (simp add: trunc0_def)
  with a f show ?thesis by blast
qed

lemma essentialLength_cutCalls: "essentialLength terseLib cutCallsRequest = 145"
  by (simp add: essentialLength_def essentialDescription_def issueSummary_def
      descriptionSection_def userInformation_def metadataSection_def metadataLine_def
      pageURLLine_def screenshot_def validImage_def timestamp_def terseLib_def
      cutCallsRequest_def index_def asString_def fmt_s_def len_def)

lemma sections_cutCalls:
  "sections terseLib cutCallsRequest =
     Inr (ncStart @ ''Network calls data truncated to fit Jira limit:\<newline>''
            @ (''{code:json}\<newline>'' @ take 15749 (filler 20000)
                 @ ''\<newline>...[truncated]...\<newline>{code}\<newline>'') @ sectionEnd,
          headersStart @ ''No request headers available.\<newline>'' @ sectionEnd,
          responseStart @ ''No response data available.\<newline>'' @ sectionEnd,
          payloadStart @ ((''{code:json}\<newline>'' @ filler 40) @ ''\<newline>{code}\<newline>'') @ sectionEnd,
          overflow ''h3. Complete Network Calls\<newline>''
            (''{code:json}\<newline>'' @ filler 20000 @ ''\<newline>{code}\<newline>'') trunc0)"
  unfolding sections_def limitsOf_def essentialLength_cutCalls allocate_sample
  by (simp add: networkCallsSection_def ncBody_def headerSection_def responseSection_def
      payloadSection_def mapBlock_def truncateBlock_def slice_to_def terseLib_def
      cutCallsRequest_def Let_def)

lemma assemble_cutCalls:
  "\<exists>d. assemble terseLib cutCallsRequest =
     Inr (d, overflow ''h3. Complete Network Calls\<newline>''
            (''{code:json}\<newline>'' @ filler 20000 @ ''\<newline>{code}\<newline>'') trunc0)"
proof -
  have e: "len (essentialDescription terseLib cutCallsRequest) + len (timestamp terseLib) = 145"
    using essentialLength_cutCalls by (simp add: essentialLength_def)
  have "\<exists>d. preGuard terseLib cutCallsRequest =
     Inr (d, overflow ''h3. Complete Network Calls\<newline>''
            (''{code:json}\<newline>'' @ filler 20000 @ ''\<newline>{code}\<newline>'') trunc0)
     \<and> len d = 16613"
    unfolding preGuard_def sections_cutCalls
    using e by (simp add: len_Cons len_Nil)
  then show ?thesis
    by (auto simp: assemble_def finalCheck_idle maxJiraDescLength_def)
qed

theorem comment_iff_truncated_witness:
  "(\<exists>response calls.
      CreateTicket terseLib sampleService sampleWorld cutCallsRequest = Inr (Inr response, calls)
      \<and> TicketID response = ''SUP-1''
      \<and> anyCut terseLib cutCallsRequest
      \<and> filter isAddComment calls =
          [AddCommentCall ''SUP-1''
             (''Additional details that couldn't fit in the description:\<newline>\<newline>''
              @ ''h3. Complete Network Calls\<newline>'' @ ''{code:json}\<newline>'' @ filler 20000
              @ ''\<newline>{code}\<newline>'' @ ''\<newline>\<newline>'')])
   \<and> (\<exists>response calls.
      CreateTicket terseLib sampleService sampleWorld plainRequest = Inr (Inr response, calls)
      \<and> \<not> anyCut terseLib plainRequest
      \<and> filter isAddComment calls = [])"
proof
  let ?t = "overflow ''h3. Complete Network Calls\<newline>''
            (''{code:json}\<newline>'' @ filler 20000 @ ''\<newline>{code}\<newline>'') trunc0"
  obtain d where a: "assemble terseLib cutCallsRequest = Inr (d, ?t)"
    using assemble_cutCalls by blast
  have c: "Create sampleWorld (issueFields terseLib sampleService sampleWorld cutCallsRequest d
             ''bob'') = Inr ''SUP-1''"
    by (simp add: sampleWorld_def)
  from CreateTicket_unfolded [OF a assignee_sample] c
  obtain response calls where
    r: "CreateTicket terseLib sampleService sampleWorld cutCallsRequest
          = Inr (Inr response, calls)"
    and k: "TicketID response = ''SUP-1''"
    by simp
  have cut: "anyCut terseLib cutCallsRequest"
    using assemble_flag [OF a] by simp
  have body: "truncatedContent ?t =
      ''Additional details that couldn't fit in the description:\<newline>\<newline>''
      @ ''h3. Complete Network Calls\<newline>'' @ ''{code:json}\<newline>'' @ filler 20000
      @ ''\<newline>{code}\<newline>'' @ ''\<newline>\<newline>''"
    by (simp add: overflow_def trunc0_def)
  have short: "\<not> len (truncatedContent ?t) > maxJiraDescLength"
    unfolding body by (simp add: len_Cons len_Nil maxJiraDescLength_def)
  from comment_iff_truncated [OF r] a
  have "filter isAddComment calls =
         (if anyCut terseLib cutCallsRequest
          then [AddCommentCall (TicketID response)
                  (if len (truncatedContent ?t) > maxJiraDescLength
                   then take (nat (maxJiraDescLength - 100)) (truncatedContent ?t) @ commentNotice
                   else truncatedContent ?t)]
          else [])"
    by auto
  with cut short k body
  have "filter isAddComment calls =
          [AddCommentCall ''SUP-1''
             (''Additional details that couldn't fit in the description:\<newline>\<newline>''
              @ ''h3. Complete Network Calls\<newline>'' @ ''{code:json}\<newline>'' @ filler 20000
              @ ''\<newline>{code}\<newline>'' @ ''\<newline>\<newline>'')]"
    by simp
  with r k cut show "\<exists>response calls.
      CreateTicket terseLib sampleService sampleWorld cutCallsRequest = Inr (Inr response, calls)
      \<and> TicketID response = ''SUP-1''
      \<and> anyCut terseLib cutCallsRequest
      \<and> filter isAddComment calls =
          [AddCommentCall ''SUP-1''
             (''Additional details that couldn't fit in the description:\<newline>\<newline>''
              @ ''h3. Complete Network Calls\<newline>'' @ ''{code:json}\<newline>'' @ filler 20000
              @ ''\<newline>{code}\<newline>'' @ ''\<newline>\<newline>'')]"
    by blast
next
  obtain d where a: "assemble terseLib plainRequest = Inr (d, trunc0)"
    using assemble_plain by blast
  have c: "Create sampleWorld (issueFields terseLib sampleService sampleWorld plainRequest d
             ''bob'') = Inr ''SUP-1''"
    by (simp add: sampleWorld_def)
  from CreateTicket_unfolded [OF a assignee_sample] c
  obtain response calls where
    r: "CreateTicket terseLib sampleService sampleWorld plainRequest = Inr (Inr response, calls)"
    by simp
  have nocut: "\<not> anyCut terseLib plainRequest"
    using assemble_flag [OF a] by (simp add: trunc0_def)
  from comment_iff_truncated [OF r] nocut
  have "filter isAddComment calls = []" by auto
  with r nocut show "\<exists>response calls.
      CreateTicket terseLib sampleService sampleWorld plainRequest = Inr (Inr response, calls)
      \<and> \<not> anyCut terseLib plainRequest
      \<and> filter isAddComment calls = []"
    by blast
qed

end
